theory Spec2Isabelle
  imports Complex_Main "HOL-Library.AList" "HOL-Library.Multiset"
begin

section \<open>Common conventions\<close>

text \<open>
  The Python sources compute with \<open>float\<close>. The embedding reads every \<open>float\<close> as a
  real number: arithmetic is exact, and Python's \<open>round(x, 2)\<close> is rounding of the exact
  value to two decimals, ties to the even neighbour. Python \<open>int\<close> is \<open>int\<close>, \<open>str\<close> is
  \<open>string\<close> (ASCII), \<open>Optional[T]\<close> is \<open>T option\<close>. An exception that leaves a function
  is the \<open>Inl\<close> branch of its result.
\<close>

datatype py_error = ZeroDivisionError | KeyError | AttributeError | ValueError | ParseError

definition round_half_even :: "real \<Rightarrow> int" where
  "round_half_even x =
     (let f = \<lfloor>x\<rfloor>; d = x - of_int f
      in if d < 1 / 2 then f else if 1 / 2 < d then f + 1 else if even f then f else f + 1)"

text \<open>
  Python rounds the binary float, not the exact value: where the exact value is at or next
  to a decimal tie, \<open>round(x, 2)\<close> may return the other neighbour. A statement below that
  involves a rounded value is either at an input where both agree or bounds the value
  instead of fixing it.
\<close>

definition round2 :: "real \<Rightarrow> real" where
  "round2 x = of_int (round_half_even (x * 100)) / 100"

section \<open>Link-budget engine (\<open>services/opm_calculator.py\<close>)\<close>

datatype WavelengthType = NM_1310 | NM_1550

datatype FiberType = SINGLE_MODE | MULTI_MODE

record OpticalParameters =
  tx_power :: real
  rx_sensitivity :: real
  wavelength :: WavelengthType
  fiber_type :: FiberType

record NetworkSegment =
  fiber_length_km :: real
  splice_count :: int
  connector_count :: int
  seg_name :: string

record LossParameters =
  fiber_loss_per_km :: real
  splice_loss :: real
  connector_loss :: real
  safety_margin :: real

text \<open>The dataclass defaults of \<open>LossParameters\<close>: 0.35, 0.1, 0.5 and 3.0.\<close>

definition default_loss_params :: LossParameters where
  "default_loss_params =
     \<lparr>fiber_loss_per_km = 35 / 100, splice_loss = 1 / 10, connector_loss = 1 / 2,
      safety_margin = 3\<rparr>"

text \<open>The \<open>details\<close> dictionary of a result, one field per key that is computed.\<close>

record LossBreakdown =
  fiber_loss_db :: real
  splice_loss_db :: real
  connector_loss_db :: real
  total_loss_db :: real

record CalcDetails =
  segment_name :: string
  optical_params :: OpticalParameters
  loss_breakdown :: LossBreakdown
  segment_details :: NetworkSegment
  fiber_length_m :: real
  safety_margin_db :: real
  loss_per_km_db :: real

record CalculationResult =
  power_budget :: real
  total_loss :: real
  available_margin :: real
  status :: string
  quality_score :: real
  details :: CalcDetails

definition determine_status :: "real \<Rightarrow> string" where
  "determine_status margin =
     (if margin \<ge> 3 then ''OK''
      else if margin \<ge> 0 then ''Warning''
      else ''Critical'')"

definition calculate_quality_score :: "real \<Rightarrow> real \<Rightarrow> real \<Rightarrow> real" where
  "calculate_quality_score p_budget t_loss margin =
     (if p_budget \<le> 0 then 0
      else
        let loss_efficiency = max 0 (1 - t_loss / p_budget) * 40;
            margin_adequacy = min 60 (max 0 ((margin / 10) * 60));
            total_score = loss_efficiency + margin_adequacy
        in max 0 (min 100 total_score))"

definition calculate_power_budget ::
  "OpticalParameters \<Rightarrow> LossParameters \<Rightarrow> NetworkSegment \<Rightarrow> CalculationResult" where
  "calculate_power_budget optical loss segment =
     (let p_budget = tx_power optical - rx_sensitivity optical;
          fiber_loss = fiber_length_km segment * fiber_loss_per_km loss;
          splice_l = of_int (splice_count segment) * splice_loss loss;
          connector_l = of_int (connector_count segment) * connector_loss loss;
          t_loss = fiber_loss + splice_l + connector_l;
          margin = p_budget - t_loss - safety_margin loss;
          st = determine_status margin;
          qs = calculate_quality_score p_budget t_loss margin
      in \<lparr>power_budget = round2 p_budget,
          total_loss = round2 t_loss,
          available_margin = round2 margin,
          status = st,
          quality_score = round2 qs,
          details =
            \<lparr>segment_name = seg_name segment,
             optical_params = optical,
             loss_breakdown =
               \<lparr>fiber_loss_db = round2 fiber_loss,
                splice_loss_db = round2 splice_l,
                connector_loss_db = round2 connector_l,
                total_loss_db = round2 t_loss\<rparr>,
             segment_details = segment,
             fiber_length_m = fiber_length_km segment * 1000,
             safety_margin_db = safety_margin loss,
             loss_per_km_db = fiber_loss_per_km loss\<rparr>\<rparr>)"

text \<open>
  \<open>calculate_max_distance\<close> divides by \<open>fiber_loss_per_km\<close> with no test before it; Python
  raises \<open>ZeroDivisionError\<close> on a zero divisor.
\<close>

definition calculate_max_distance ::
  "OpticalParameters \<Rightarrow> LossParameters \<Rightarrow> int \<Rightarrow> int \<Rightarrow> py_error + real" where
  "calculate_max_distance optical loss splices connectors =
     (let p_budget = tx_power optical - rx_sensitivity optical;
          available_for_fiber =
            p_budget - of_int splices * splice_loss loss
               - of_int connectors * connector_loss loss
               - safety_margin loss
      in if fiber_loss_per_km loss = 0 then Inl ZeroDivisionError
         else Inr (max 0 (available_for_fiber / fiber_loss_per_km loss)))"

text \<open>
  The value of the local \<open>available_for_fiber\<close> of \<open>calculate_max_distance\<close>: what the
  power budget leaves for the fibre once the splice losses, the connector losses and the
  safety margin are taken off. It is negative when the budget falls short of them.
\<close>

definition fibre_allowance :: "OpticalParameters \<Rightarrow> LossParameters \<Rightarrow> int \<Rightarrow> int \<Rightarrow> real" where
  "fibre_allowance optical loss splices connectors =
     tx_power optical - rx_sensitivity optical
       - of_int splices * splice_loss loss
       - of_int connectors * connector_loss loss
       - safety_margin loss"

text \<open>
  The inputs that the request models of \<open>api/analysis.py\<close> accept (\<open>tx_power\<close> in
  [-10, 10], \<open>rx_sensitivity\<close> in [-40, -10], \<open>fiber_loss_per_km\<close> at most 2, \<open>splice_loss\<close>
  in [0, 1], \<open>connector_loss\<close> in [0, 2], \<open>safety_margin\<close> in [0, 10], counts from 0),
  kept away from the two ends that the models leave open: a fibre loss of at least 0.001
  dB/km and at most a million splices and a million connectors.
\<close>

definition bounded_inputs :: "OpticalParameters \<Rightarrow> LossParameters \<Rightarrow> int \<Rightarrow> int \<Rightarrow> bool" where
  "bounded_inputs optical loss splices connectors \<longleftrightarrow>
     - 10 \<le> tx_power optical \<and> tx_power optical \<le> 10
     \<and> - 40 \<le> rx_sensitivity optical \<and> rx_sensitivity optical \<le> - 10
     \<and> 1 / 1000 \<le> fiber_loss_per_km loss \<and> fiber_loss_per_km loss \<le> 2
     \<and> 0 \<le> splice_loss loss \<and> splice_loss loss \<le> 1
     \<and> 0 \<le> connector_loss loss \<and> connector_loss loss \<le> 2
     \<and> 0 \<le> safety_margin loss \<and> safety_margin loss \<le> 10
     \<and> 0 \<le> splices \<and> splices \<le> 1000000
     \<and> 0 \<le> connectors \<and> connectors \<le> 1000000"

definition calculate_required_tx_power ::
  "real \<Rightarrow> NetworkSegment \<Rightarrow> LossParameters \<Rightarrow> real" where
  "calculate_required_tx_power rx segment loss =
     (let fiber_loss = fiber_length_km segment * fiber_loss_per_km loss;
          splice_l = of_int (splice_count segment) * splice_loss loss;
          connector_l = of_int (connector_count segment) * connector_loss loss;
          t_loss = fiber_loss + splice_l + connector_l;
          required_tx = rx + t_loss + safety_margin loss
      in round2 required_tx)"

definition analyze_multiple_segments ::
  "OpticalParameters \<Rightarrow> LossParameters \<Rightarrow> NetworkSegment list \<Rightarrow> CalculationResult list" where
  "analyze_multiple_segments optical loss segments =
     map (calculate_power_budget optical loss) segments"

text \<open>The inputs of example scenario 1.\<close>

definition scenario_optical :: OpticalParameters where
  "scenario_optical =
     \<lparr>tx_power = 3, rx_sensitivity = - 28, wavelength = NM_1550, fiber_type = SINGLE_MODE\<rparr>"

definition scenario_segment :: NetworkSegment where
  "scenario_segment =
     \<lparr>fiber_length_km = 10, splice_count = 5, connector_count = 2, seg_name = ''Segment''\<rparr>"

section \<open>Strings\<close>

text \<open>
  \<open>str.lower()\<close> on ASCII text: the 26 capital letters are replaced, every other
  character is kept.
\<close>

definition lower_char :: "char \<Rightarrow> char" where
  "lower_char c =
     (case map_of (zip ''ABCDEFGHIJKLMNOPQRSTUVWXYZ'' ''abcdefghijklmnopqrstuvwxyz'') c of
        None \<Rightarrow> c
      | Some d \<Rightarrow> d)"

definition lower :: "string \<Rightarrow> string" where
  "lower s = map lower_char s"

text \<open>
  The characters for which \<open>str.isspace()\<close> holds in ASCII (codes 9 to 13, 28 to 31 and
  32); the regular-expression class \<open>\s\<close> is the same set.
\<close>

definition is_space :: "char \<Rightarrow> bool" where
  "is_space c \<longleftrightarrow>
     c \<in> set [CHR 0x09, CHR 0x0A, CHR 0x0B, CHR 0x0C, CHR 0x0D,
               CHR 0x1C, CHR 0x1D, CHR 0x1E, CHR 0x1F, CHR 0x20]"

definition strip :: "string \<Rightarrow> string" where
  "strip s = rev (dropWhile is_space (rev (dropWhile is_space s)))"

text \<open>\<open>str.split()\<close> with no argument: the maximal runs of non-space characters.\<close>

fun split_ws_from :: "string \<Rightarrow> string \<Rightarrow> string list" where
  "split_ws_from cur [] = (if cur = [] then [] else [rev cur])"
| "split_ws_from cur (c # cs) =
     (if is_space c
      then (if cur = [] then split_ws_from [] cs else rev cur # split_ws_from [] cs)
      else split_ws_from (c # cur) cs)"

definition split_ws :: "string \<Rightarrow> string list" where
  "split_ws s = split_ws_from [] s"

text \<open>\<open>str.split(sep)\<close> for a one-character separator: empty pieces are kept.\<close>

fun split_on :: "char \<Rightarrow> string \<Rightarrow> string list" where
  "split_on sep [] = [[]]"
| "split_on sep (c # cs) =
     (if c = sep then [] # split_on sep cs
      else (case split_on sep cs of [] \<Rightarrow> [[c]] | w # ws \<Rightarrow> (c # w) # ws))"

definition starts_with :: "string \<Rightarrow> string \<Rightarrow> bool" where
  "starts_with sub s \<longleftrightarrow> take (length sub) s = sub"

text \<open>\<open>sub in s\<close>.\<close>

fun contains :: "string \<Rightarrow> string \<Rightarrow> bool" where
  "contains sub [] = (sub = [])"
| "contains sub (c # cs) = (starts_with sub (c # cs) \<or> contains sub cs)"

text \<open>
  \<open>s.replace(old, '')\<close> for a non-empty \<open>old\<close>: the occurrences of \<open>old\<close> are removed
  from left to right, without overlap.
\<close>

fun replace_del :: "string \<Rightarrow> string \<Rightarrow> string" where
  "replace_del old [] = []"
| "replace_del old (c # cs) =
     (if old \<noteq> [] \<and> starts_with old (c # cs)
      then replace_del old (drop (length old - 1) cs)
      else c # replace_del old cs)"

definition is_digit :: "char \<Rightarrow> bool" where
  "is_digit c \<longleftrightarrow> c \<in> set ''0123456789''"

definition digit_val :: "char \<Rightarrow> nat" where
  "digit_val c =
     (case map_of (zip ''0123456789'' [0, 1, 2, 3, 4, 5, 6, 7, 8, 9]) c of
        None \<Rightarrow> 0
      | Some d \<Rightarrow> d)"

definition nat_of_digits :: "string \<Rightarrow> nat" where
  "nat_of_digits s = foldl (\<lambda>n c. 10 * n + digit_val c) 0 s"

text \<open>
  \<open>float(s)\<close> on the plain decimal literals: surrounding white space, an optional sign,
  digits with at most one point and at least one digit. \<open>None\<close> is \<open>ValueError\<close>. Python
  accepts more (an exponent, \<open>inf\<close>, \<open>nan\<close>, underscores between digits); these forms are
  rejected here, and no statement below is made at such an input.
\<close>

definition parse_unsigned :: "string \<Rightarrow> real option" where
  "parse_unsigned s =
     (let ip = takeWhile is_digit s; r = dropWhile is_digit s
      in case r of
           [] \<Rightarrow> (if ip = [] then None else Some (real (nat_of_digits ip)))
         | c # fp \<Rightarrow>
             (if c = CHR ''.'' \<and> list_all is_digit fp \<and> (ip \<noteq> [] \<or> fp \<noteq> [])
              then Some (real (nat_of_digits (ip @ fp)) / 10 ^ length fp)
              else None))"

definition py_float :: "string \<Rightarrow> real option" where
  "py_float s =
     (case strip s of
        [] \<Rightarrow> None
      | c # cs \<Rightarrow>
          (if c = CHR ''-'' then map_option uminus (parse_unsigned cs)
           else if c = CHR ''+'' then parse_unsigned cs
           else parse_unsigned (c # cs)))"

section \<open>Geo-document parser (\<open>services/kml_parser.py\<close>)\<close>

record Coordinate =
  longitude :: real
  latitude :: real
  altitude :: real

record Pole =
  pole_name :: string
  designator :: string
  pole_construction_status :: string
  material_type :: string
  usage :: string
  pole_coordinates :: Coordinate

record ODP =
  odp_name :: string
  odp_specification :: string
  splice_type :: string
  odp_construction_status :: string
  odp_coordinates :: Coordinate

record Cable =
  cab_name :: string
  cab_specification :: string
  number_of_cores :: int
  fiber_length :: real
  cab_construction_status :: string
  cab_coordinates :: "Coordinate list"

record RawPlacemark =
  raw_name :: string
  raw_description :: string
  raw_type :: string

record NetworkData =
  poles :: "Pole list"
  odps :: "ODP list"
  cables :: "Cable list"
  raw_placemarks :: "RawPlacemark list"

text \<open>
  The instance attributes of a \<open>KMLParser\<close>. \<open>__init__\<close> is the only place of the class
  that assigns them; \<open>_parse_placemark\<close> appends to them.
\<close>

record KMLParser =
  self_poles :: "Pole list"
  self_odps :: "ODP list"
  self_cables :: "Cable list"
  self_raw_placemarks :: "RawPlacemark list"

definition KMLParser_init :: KMLParser where
  "KMLParser_init =
     \<lparr>self_poles = [], self_odps = [], self_cables = [], self_raw_placemarks = []\<rparr>"

text \<open>
  What \<open>_parse_placemark\<close> reads of a \<open>Placemark\<close> element: the results of the four
  \<open>find\<close> calls. The outer \<open>None\<close> is an element that is not there, the inner one a
  \<open>text\<close> attribute that is \<open>None\<close> (an element with no content).
\<close>

record Placemark =
  name_elem :: "string option option"
  description_elem :: "string option option"
  point_coordinates :: "string option option"
  linestring_coordinates :: "string option option"

text \<open>
  A document after \<open>ET.parse\<close> and \<open>findall('.//kml:Placemark')\<close>: the parse raises, or
  there is the list of placemarks in document order.
\<close>

datatype Document = Malformed | Placemarks "Placemark list"

definition any_indicator :: "string list \<Rightarrow> string \<Rightarrow> string \<Rightarrow> bool" where
  "any_indicator indicators name description =
     (let name_lower = lower name; desc_lower = lower description
      in list_ex (\<lambda>ind. contains ind name_lower \<or> contains ind desc_lower) indicators)"

definition is_pole :: "string \<Rightarrow> string \<Rightarrow> bool" where
  "is_pole name description =
     any_indicator [''tiang'', ''pole'', ''PU-'', ''designator:pu''] name description"

definition is_odp :: "string \<Rightarrow> string \<Rightarrow> bool" where
  "is_odp name description =
     any_indicator [''odp'', ''optical distribution'', ''splice''] name description"

definition is_cable :: "string \<Rightarrow> string \<Rightarrow> bool" where
  "is_cable name description =
     any_indicator [''cable'', ''kabel'', ''fiber length'', ''number of core'', ''adss'']
       name description"

definition determine_type :: "string \<Rightarrow> string \<Rightarrow> string" where
  "determine_type name description =
     (if is_pole name description then ''pole''
      else if is_odp name description then ''odp''
      else if is_cable name description then ''cable''
      else ''unknown'')"

text \<open>One part of a coordinate text; \<open>None\<close> when the part is skipped.\<close>

definition parse_coordinate_part :: "string \<Rightarrow> Coordinate option" where
  "parse_coordinate_part part =
     (let vals = split_on CHR '','' part
      in if length vals \<ge> 2 then
           (case py_float (vals ! 0) of
              None \<Rightarrow> None
            | Some lon \<Rightarrow>
                (case py_float (vals ! 1) of
                   None \<Rightarrow> None
                 | Some lat \<Rightarrow>
                     (if length vals > 2 then
                        (case py_float (vals ! 2) of
                           None \<Rightarrow> None
                         | Some alt \<Rightarrow>
                             Some \<lparr>longitude = lon, latitude = lat, altitude = alt\<rparr>)
                      else Some \<lparr>longitude = lon, latitude = lat, altitude = 0\<rparr>)))
         else None)"

definition parse_coordinates :: "string option \<Rightarrow> Coordinate list" where
  "parse_coordinates coord_text =
     (case coord_text of
        None \<Rightarrow> []
      | Some t \<Rightarrow>
          (if t = [] then []
           else List.map_filter parse_coordinate_part (split_ws (strip t))))"

text \<open>
  \<open>re.search(rf'{field_name}\s*:\s*([^\n]+)', description, re.IGNORECASE)\<close>.
  \<open>match_field_at\<close> is the match that starts at the head of the text; its result is group
  1. After the colon the greedy \<open>\s*\<close> takes all the white space; when a character is
  left, the group runs from it to the end of the line. When none is left, the matcher
  gives white space back from the end, and the group is the last character of that white
  space that is not a line feed, if there is one.
\<close>

definition match_field_at :: "string \<Rightarrow> string \<Rightarrow> string option" where
  "match_field_at field_name s =
     (if lower (take (length field_name) s) = lower field_name then
        (case dropWhile is_space (drop (length field_name) s) of
           [] \<Rightarrow> None
         | c # r \<Rightarrow>
             (if c = CHR '':'' then
                (case dropWhile is_space r of
                   [] \<Rightarrow>
                     (case dropWhile (\<lambda>w. w = CHR 0x0A) (rev (takeWhile is_space r)) of
                        [] \<Rightarrow> None
                      | w # _ \<Rightarrow> Some [w])
                 | g # gs \<Rightarrow> Some (takeWhile (\<lambda>w. w \<noteq> CHR 0x0A) (g # gs)))
              else None))
      else None)"

fun search_field :: "string \<Rightarrow> string \<Rightarrow> string option" where
  "search_field field_name [] = match_field_at field_name []"
| "search_field field_name (c # cs) =
     (case match_field_at field_name (c # cs) of
        Some g \<Rightarrow> Some g
      | None \<Rightarrow> search_field field_name cs)"

definition extract_field :: "string \<Rightarrow> string \<Rightarrow> string option" where
  "extract_field description field_name =
     map_option strip (search_field field_name description)"

text \<open>\<open>x or d\<close> for an optional string: \<open>None\<close> and the empty string are false.\<close>

definition or_else :: "string option \<Rightarrow> string \<Rightarrow> string" where
  "or_else x d = (case x of None \<Rightarrow> d | Some v \<Rightarrow> if v = [] then d else v)"

text \<open>
  \<open>_parse_length\<close>. The \<open>try\<close> covers the whole body; the only statement that can raise is
  \<open>float\<close>, and the handler returns \<open>0.0\<close>.
\<close>

definition parse_length :: "string \<Rightarrow> real" where
  "parse_length length_str =
     (let s1 = strip (replace_del ''m'' (replace_del ''meter'' (lower length_str)))
      in if contains ''km'' s1 then
           (case py_float (strip (replace_del ''km'' s1)) of
              None \<Rightarrow> 0
            | Some v \<Rightarrow> v * 1000)
         else (case py_float s1 of None \<Rightarrow> 0 | Some v \<Rightarrow> v))"

definition parse_pole :: "Placemark \<Rightarrow> string \<Rightarrow> string \<Rightarrow> Pole option" where
  "parse_pole placemark name description =
     (case point_coordinates placemark of
        None \<Rightarrow> None
      | Some point_text \<Rightarrow>
          (case parse_coordinates point_text of
             [] \<Rightarrow> None
           | c0 # _ \<Rightarrow>
               Some
                 \<lparr>pole_name = name,
                  designator = or_else (extract_field description ''Designator'') name,
                  pole_construction_status =
                    or_else (extract_field description ''Construction Status'') ''Unknown'',
                  material_type =
                    or_else (extract_field description ''Material Type'') ''Unknown'',
                  usage = or_else (extract_field description ''Usage'') ''Telco'',
                  pole_coordinates = c0\<rparr>))"

definition parse_odp :: "Placemark \<Rightarrow> string \<Rightarrow> string \<Rightarrow> ODP option" where
  "parse_odp placemark name description =
     (case point_coordinates placemark of
        None \<Rightarrow> None
      | Some point_text \<Rightarrow>
          (case parse_coordinates point_text of
             [] \<Rightarrow> None
           | c0 # _ \<Rightarrow>
               Some
                 \<lparr>odp_name = name,
                  odp_specification =
                    or_else (extract_field description ''Specification ID'') ''Unknown'',
                  splice_type = or_else (extract_field description ''Splice Type'') ''Unknown'',
                  odp_construction_status =
                    or_else (extract_field description ''Construction Status'') ''Unknown'',
                  odp_coordinates = c0\<rparr>))"

text \<open>
  \<open>cores_str.isdigit()\<close> on ASCII text: not empty and decimal digits only, so \<open>int\<close> does
  not raise.
\<close>

definition parse_cable :: "Placemark \<Rightarrow> string \<Rightarrow> string \<Rightarrow> Cable option" where
  "parse_cable placemark name description =
     (case linestring_coordinates placemark of
        None \<Rightarrow> None
      | Some line_text \<Rightarrow>
          (case parse_coordinates line_text of
             [] \<Rightarrow> None
           | c0 # cs \<Rightarrow>
               (let cores_str = extract_field description ''Number of Core'';
                    length_str = extract_field description ''Fiber Length'';
                    cores =
                      (case cores_str of
                         None \<Rightarrow> 0
                       | Some t \<Rightarrow>
                           if t \<noteq> [] \<and> list_all is_digit t then int (nat_of_digits t) else 0);
                    len =
                      (case length_str of
                         None \<Rightarrow> 0
                       | Some t \<Rightarrow> if t \<noteq> [] then parse_length t else 0)
                in Some
                     \<lparr>cab_name = name,
                      cab_specification =
                        or_else (extract_field description ''Specification'') ''Unknown'',
                      number_of_cores = cores,
                      fiber_length = len,
                      cab_construction_status =
                        or_else (extract_field description ''Construction Status'') ''Unknown'',
                      cab_coordinates = c0 # cs\<rparr>)))"

text \<open>
  \<open>_parse_placemark\<close> updates the parser in place and returns nothing. A \<open>name\<close> or
  \<open>description\<close> element without text gives \<open>None\<close>, on which \<open>.lower()\<close> raises; the
  handler of the method logs the exception, and nothing has been appended by then.
\<close>

definition parse_placemark :: "KMLParser \<Rightarrow> Placemark \<Rightarrow> KMLParser" where
  "parse_placemark self placemark =
     (let name = (case name_elem placemark of None \<Rightarrow> Some ''Unknown'' | Some t \<Rightarrow> t);
          description = (case description_elem placemark of None \<Rightarrow> Some [] | Some t \<Rightarrow> t)
      in case (name, description) of
           (Some n, Some d) \<Rightarrow>
             (let self1 =
                    (if is_pole n d then
                       (case parse_pole placemark n d of
                          None \<Rightarrow> self
                        | Some pole \<Rightarrow> self\<lparr>self_poles := self_poles self @ [pole]\<rparr>)
                     else if is_odp n d then
                       (case parse_odp placemark n d of
                          None \<Rightarrow> self
                        | Some odp \<Rightarrow> self\<lparr>self_odps := self_odps self @ [odp]\<rparr>)
                     else if is_cable n d then
                       (case parse_cable placemark n d of
                          None \<Rightarrow> self
                        | Some cable \<Rightarrow> self\<lparr>self_cables := self_cables self @ [cable]\<rparr>)
                     else self)
              in self1\<lparr>self_raw_placemarks :=
                         self_raw_placemarks self1
                         @ [\<lparr>raw_name = n, raw_description = d,
                             raw_type = determine_type n d\<rparr>]\<rparr>)
         | _ \<Rightarrow> self)"

text \<open>
  \<open>parse_file\<close> returns the snapshot and leaves the parser changed: the result is the
  pair of both. The snapshot is built from the attributes of the parser as they are after
  the loop.
\<close>

definition parse_file :: "KMLParser \<Rightarrow> Document \<Rightarrow> (py_error + NetworkData) \<times> KMLParser" where
  "parse_file self document =
     (case document of
        Malformed \<Rightarrow> (Inl ParseError, self)
      | Placemarks placemarks \<Rightarrow>
          (let self1 = foldl parse_placemark self placemarks
           in (Inr \<lparr>poles = self_poles self1,
                    odps = self_odps self1,
                    cables = self_cables self1,
                    raw_placemarks = self_raw_placemarks self1\<rparr>,
               self1)))"

section \<open>Reconciliation engine (\<open>services/comparison_service.py\<close>)\<close>

text \<open>
  A cable of a snapshot is a Python \<open>dict\<close>. \<open>c['name']\<close> raises \<open>KeyError\<close> when the key
  is absent; the other two keys are read with \<open>.get\<close> and a default. The snapshot itself
  is read with \<open>.get('cables', [])\<close>, so its only key may be absent as well.
\<close>

record CableDict =
  cd_name :: "string option"
  cd_fiber_length_km :: "real option"
  cd_construction_status :: "string option"
  cd_specification :: "string option"

record NetworkDict =
  nd_cables :: "CableDict list option"

text \<open>Of an \<open>OPMMeasurement\<close> the comparator reads \<open>cable_id\<close> and \<open>loss_db\<close> only.\<close>

record OPMMeasurement =
  opm_cable_id :: string
  opm_segment_name :: string
  opm_loss_db :: real
  opm_length_km :: real
  opm_status :: string

text \<open>
  The remarks are format strings; each constructor stands for one of them and carries the
  values that the string interpolates:
  \<^item> \<open>'Cable planned but not built'\<close>
  \<^item> \<open>'Cable built but not in original plan'\<close>
  \<^item> \<open>'Loss variance detected'\<close>
  \<^item> \<open>'Length variance: {pct:.1f}%'\<close>
  \<^item> \<open>'Significant length variance: {pct:.1f}%'\<close>
  \<^item> \<open>'Status mismatch: {planned_status} -> {built_status}'\<close>
\<close>

datatype Remark =
    PlannedNotBuilt
  | BuiltNotPlanned
  | LossVarianceDetected
  | LengthVariance real
  | SignificantLengthVariance real
  | StatusMismatch string string

record ComparisonResult =
  cable_id :: string
  planned_length_km :: real
  built_length_km :: real
  length_variance_km :: real
  length_variance_pct :: real
  planned_status :: string
  built_status :: string
  status_match :: bool
  planned_loss_db :: "real option"
  measured_loss_db :: "real option"
  loss_variance_db :: "real option"
  compliance_status :: string
  remarks :: "Remark list"

record Discrepancy =
  disc_cable_id :: string
  severity :: string
  disc_length_variance_pct :: real
  disc_remarks :: "Remark list"

record Summary =
  total_cables :: nat
  compliant :: nat
  minor_deviations :: nat
  major_deviations :: nat
  compliance_rate :: real
  total_planned_length_km :: real
  total_built_length_km :: real
  overall_length_variance_km :: real
  overall_length_variance_pct :: real

text \<open>
  The recommendation strings, one constructor each, in the order in which
  \<open>_generate_recommendations\<close> may append them; the last two carry the count that the
  string interpolates.
\<close>

datatype Recommendation =
    InvestigateMajor
  | ReviewOverTenPercent
  | MinorDetected
  | DocumentReasons
  | Excellent
  | Good
  | Review
  | NotYetBuilt nat
  | UnplannedBuilt nat

record NetworkComparison =
  cable_comparisons :: "ComparisonResult list"
  summary :: "Summary option"
  discrepancies :: "Discrepancy list"
  recommendations :: "Recommendation list"

definition LENGTH_TOLERANCE_PCT :: real where
  "LENGTH_TOLERANCE_PCT = 5"

definition LOSS_TOLERANCE_DB :: real where
  "LOSS_TOLERANCE_DB = 1 / 2"

text \<open>
  \<open>_compare_cable\<close>. \<open>built\<close> comes from \<open>built_cables.get(cable_name)\<close>: it is \<open>None\<close> or a
  dictionary that has the key \<open>name\<close>, hence not empty, so \<open>not built\<close> is \<open>built is None\<close>.
  \<open>planned_loss\<close> is the constant \<open>None\<close> of the source; \<open>planned_loss and ...\<close> is false
  for \<open>None\<close> and for \<open>0.0\<close>.
\<close>

definition compare_cable ::
  "string \<Rightarrow> CableDict \<Rightarrow> CableDict option \<Rightarrow> OPMMeasurement option \<Rightarrow> ComparisonResult" where
  "compare_cable cable_name planned built opm =
     (let planned_length = (case cd_fiber_length_km planned of None \<Rightarrow> 0 | Some l \<Rightarrow> l);
          p_status = (case cd_construction_status planned of None \<Rightarrow> ''Unknown'' | Some t \<Rightarrow> t);
          planned_loss = (None :: real option)
      in case built of
           None \<Rightarrow>
             \<lparr>cable_id = cable_name,
              planned_length_km = planned_length,
              built_length_km = 0,
              length_variance_km = - planned_length,
              length_variance_pct = - 100,
              planned_status = p_status,
              built_status = ''Not Built'',
              status_match = False,
              planned_loss_db = planned_loss,
              measured_loss_db = None,
              loss_variance_db = None,
              compliance_status = ''Major Deviation'',
              remarks = [PlannedNotBuilt]\<rparr>
         | Some b \<Rightarrow>
             (let built_length = (case cd_fiber_length_km b of None \<Rightarrow> 0 | Some l \<Rightarrow> l);
                  b_status = (case cd_construction_status b of None \<Rightarrow> ''Unknown'' | Some t \<Rightarrow> t);
                  variance_km = built_length - planned_length;
                  variance_pct =
                    (if planned_length > 0 then variance_km / planned_length * 100 else 0);
                  s_match = (lower p_status = lower b_status);
                  measured_loss = map_option opm_loss_db opm;
                  loss_variance = (None :: real option);
                  (compliance, remarks0) =
                    (if \<bar>variance_pct\<bar> \<le> LENGTH_TOLERANCE_PCT then
                       (if measured_loss = None \<or>
                           (case planned_loss of
                              None \<Rightarrow> False
                            | Some pl \<Rightarrow>
                                pl \<noteq> 0 \<and> \<bar>the measured_loss - pl\<bar> \<le> LOSS_TOLERANCE_DB)
                        then (''Compliant'', [])
                        else (''Minor Deviation'', [LossVarianceDetected]))
                     else if \<bar>variance_pct\<bar> \<le> LENGTH_TOLERANCE_PCT * 2 then
                       (''Minor Deviation'', [LengthVariance variance_pct])
                     else (''Major Deviation'', [SignificantLengthVariance variance_pct]));
                  remarks1 =
                    (if \<not> s_match then remarks0 @ [StatusMismatch p_status b_status]
                     else remarks0)
              in \<lparr>cable_id = cable_name,
                  planned_length_km = planned_length,
                  built_length_km = built_length,
                  length_variance_km = variance_km,
                  length_variance_pct = variance_pct,
                  planned_status = p_status,
                  built_status = b_status,
                  status_match = s_match,
                  planned_loss_db = planned_loss,
                  measured_loss_db = measured_loss,
                  loss_variance_db = loss_variance,
                  compliance_status = compliance,
                  remarks = remarks1\<rparr>))"

definition create_unplanned_cable_result ::
  "string \<Rightarrow> CableDict \<Rightarrow> OPMMeasurement option \<Rightarrow> ComparisonResult" where
  "create_unplanned_cable_result cable_name built opm =
     (let built_length = (case cd_fiber_length_km built of None \<Rightarrow> 0 | Some l \<Rightarrow> l);
          b_status = (case cd_construction_status built of None \<Rightarrow> ''Unknown'' | Some t \<Rightarrow> t);
          measured_loss = map_option opm_loss_db opm
      in \<lparr>cable_id = cable_name,
          planned_length_km = 0,
          built_length_km = built_length,
          length_variance_km = built_length,
          length_variance_pct = 100,
          planned_status = ''Not Planned'',
          built_status = b_status,
          status_match = False,
          planned_loss_db = None,
          measured_loss_db = measured_loss,
          loss_variance_db = None,
          compliance_status = ''Major Deviation'',
          remarks = [BuiltNotPlanned]\<rparr>)"

text \<open>
  \<open>{c['name']: c for c in cables}\<close>: a dictionary keeps a key at the place of its first
  insertion and the value of its last one, which is \<open>AList.update\<close> on an association
  list; the first cable without a name raises \<open>KeyError\<close>.
\<close>

fun cable_lookup ::
  "(string \<times> CableDict) list \<Rightarrow> CableDict list \<Rightarrow> py_error + (string \<times> CableDict) list" where
  "cable_lookup acc [] = Inr acc"
| "cable_lookup acc (c # cs) =
     (case cd_name c of
        None \<Rightarrow> Inl KeyError
      | Some n \<Rightarrow> cable_lookup (AList.update n c acc) cs)"

text \<open>
  \<open>opm_lookup\<close>: empty when \<open>opm_measurements\<close> is \<open>None\<close> or the empty list, else each
  measurement is stored under its \<open>cable_id\<close>, a later one replacing an earlier one.
\<close>

definition opm_lookup :: "OPMMeasurement list option \<Rightarrow> (string \<times> OPMMeasurement) list" where
  "opm_lookup opm_measurements =
     (case opm_measurements of
        None \<Rightarrow> []
      | Some ms \<Rightarrow> fold (\<lambda>m acc. AList.update (opm_cable_id m) m acc) ms [])"

definition generate_summary :: "ComparisonResult list \<Rightarrow> Summary option" where
  "generate_summary comparisons =
     (let total = length comparisons
      in if total = 0 then None
         else
           let n_compliant = length (filter (\<lambda>c. compliance_status c = ''Compliant'') comparisons);
               minor_dev = length (filter (\<lambda>c. compliance_status c = ''Minor Deviation'') comparisons);
               major_dev = length (filter (\<lambda>c. compliance_status c = ''Major Deviation'') comparisons);
               planned_total = sum_list (map planned_length_km comparisons);
               built_total = sum_list (map built_length_km comparisons)
           in Some
                \<lparr>total_cables = total,
                 compliant = n_compliant,
                 minor_deviations = minor_dev,
                 major_deviations = major_dev,
                 compliance_rate = round2 (real n_compliant / real total * 100),
                 total_planned_length_km = round2 planned_total,
                 total_built_length_km = round2 built_total,
                 overall_length_variance_km = round2 (built_total - planned_total),
                 overall_length_variance_pct =
                   (if planned_total > 0
                    then round2 ((built_total - planned_total) / planned_total * 100)
                    else 0)\<rparr>)"

definition severity_order :: "string \<Rightarrow> nat" where
  "severity_order s =
     (if s = ''Major Deviation'' then 0 else if s = ''Minor Deviation'' then 1 else 2)"

definition discrepancy_of :: "ComparisonResult \<Rightarrow> Discrepancy" where
  "discrepancy_of cr =
     \<lparr>disc_cable_id = cable_id cr,
      severity = compliance_status cr,
      disc_length_variance_pct = length_variance_pct cr,
      disc_remarks = remarks cr\<rparr>"

text \<open>
  \<open>list.sort(key=...)\<close> is stable; so is \<open>sort_key\<close>, an insertion sort that puts an
  element before the first one whose key is not smaller.
\<close>

definition identify_discrepancies :: "ComparisonResult list \<Rightarrow> Discrepancy list" where
  "identify_discrepancies comparisons =
     sort_key (\<lambda>d. severity_order (severity d))
       (map discrepancy_of
          (filter (\<lambda>cr. compliance_status cr \<in> set [''Minor Deviation'', ''Major Deviation''])
             comparisons))"

definition generate_recommendations ::
  "ComparisonResult list \<Rightarrow> Summary option \<Rightarrow> Recommendation list" where
  "generate_recommendations comparisons summ =
     (let major = (case summ of None \<Rightarrow> 0 | Some sm \<Rightarrow> major_deviations sm);
          minor = (case summ of None \<Rightarrow> 0 | Some sm \<Rightarrow> minor_deviations sm);
          rate = (case summ of None \<Rightarrow> 0 | Some sm \<Rightarrow> compliance_rate sm);
          not_built = filter (\<lambda>c. built_status c = ''Not Built'') comparisons;
          unplanned = filter (\<lambda>c. planned_status c = ''Not Planned'') comparisons
      in (if major > 0 then [InvestigateMajor, ReviewOverTenPercent] else [])
         @ (if minor > 0 then [MinorDetected, DocumentReasons] else [])
         @ (if rate \<ge> 95 then [Excellent] else if rate \<ge> 85 then [Good] else [Review])
         @ (if not_built \<noteq> [] then [NotYetBuilt (length not_built)] else [])
         @ (if unplanned \<noteq> [] then [UnplannedBuilt (length unplanned)] else []))"

definition compare_networks ::
  "NetworkDict \<Rightarrow> NetworkDict \<Rightarrow> OPMMeasurement list option \<Rightarrow> py_error + NetworkComparison" where
  "compare_networks planned_data built_data opm_measurements =
     (case cable_lookup [] (case nd_cables planned_data of None \<Rightarrow> [] | Some cs \<Rightarrow> cs) of
        Inl e \<Rightarrow> Inl e
      | Inr planned_cables \<Rightarrow>
     (case cable_lookup [] (case nd_cables built_data of None \<Rightarrow> [] | Some cs \<Rightarrow> cs) of
        Inl e \<Rightarrow> Inl e
      | Inr built_cables \<Rightarrow>
          (let opms = opm_lookup opm_measurements;
               from_planned =
                 map (\<lambda>(cable_name, planned_cable).
                        compare_cable cable_name planned_cable
                          (map_of built_cables cable_name) (map_of opms cable_name))
                   planned_cables;
               from_built =
                 map (\<lambda>(cable_name, built_cable).
                        create_unplanned_cable_result cable_name built_cable
                          (map_of opms cable_name))
                   (filter (\<lambda>(cable_name, built_cable). map_of planned_cables cable_name = None)
                      built_cables);
               comparisons = from_planned @ from_built;
               summ = generate_summary comparisons
           in Inr \<lparr>cable_comparisons = comparisons,
                   summary = summ,
                   discrepancies = identify_discrepancies comparisons,
                   recommendations = generate_recommendations comparisons summ\<rparr>)))"

text \<open>The names of the cables of a snapshot.\<close>

definition cable_names :: "NetworkDict \<Rightarrow> string set" where
  "cable_names d =
     {n. \<exists>c \<in> set (case nd_cables d of None \<Rightarrow> [] | Some cs \<Rightarrow> cs). cd_name c = Some n}"

definition well_keyed :: "NetworkDict \<Rightarrow> bool" where
  "well_keyed d =
     list_all (\<lambda>c. cd_name c \<noteq> None) (case nd_cables d of None \<Rightarrow> [] | Some cs \<Rightarrow> cs)"

section \<open>The comparison endpoint (\<open>api/comparison.py\<close>, \<open>compare_planned_vs_built\<close>)\<close>

text \<open>The dictionary that the endpoint builds from the cables of a snapshot.\<close>

definition cable_dicts :: "NetworkData \<Rightarrow> NetworkDict" where
  "cable_dicts network_data =
     \<lparr>nd_cables =
        Some (map (\<lambda>c. \<lparr>cd_name = Some (cab_name c),
                         cd_fiber_length_km = Some (fiber_length c / 1000),
                         cd_construction_status = Some (cab_construction_status c),
                         cd_specification = Some (cab_specification c)\<rparr>)
                (cables network_data))\<rparr>"

text \<open>
  The endpoint once the two documents and the measurements are loaded: one \<open>KMLParser()\<close>
  parses the planned document and then the built one; each dictionary is built right after
  its parse. An empty measurement list is passed on as \<open>None\<close>.
\<close>

definition compare_planned_vs_built ::
  "Document \<Rightarrow> Document \<Rightarrow> OPMMeasurement list \<Rightarrow> py_error + NetworkComparison" where
  "compare_planned_vs_built planned_kml built_kml opm_measurements =
     (let parser = KMLParser_init;
          (planned_result, parser1) = parse_file parser planned_kml
      in case planned_result of
           Inl e \<Rightarrow> Inl e
         | Inr planned_data \<Rightarrow>
             (let planned_dict = cable_dicts planned_data;
                  (built_result, parser2) = parse_file parser1 built_kml
              in case built_result of
                   Inl e \<Rightarrow> Inl e
                 | Inr built_data \<Rightarrow>
                     compare_networks planned_dict (cable_dicts built_data)
                       (if opm_measurements = [] then None else Some opm_measurements)))"

section \<open>Example inputs\<close>

text \<open>A document with one cable placemark: a name, a fibre length and a two-point path.\<close>

definition cable_placemark :: "string \<Rightarrow> string \<Rightarrow> Placemark" where
  "cable_placemark name len =
     \<lparr>name_elem = Some (Some name),
      description_elem = Some (Some (''Fiber Length: '' @ len)),
      point_coordinates = None,
      linestring_coordinates = Some (Some ''106.8,-6.2,0 106.9,-6.3,0'')\<rparr>"

definition doc_a :: Document where
  "doc_a = Placemarks [cable_placemark ''Cable-A'' ''1000m'']"

definition doc_b :: Document where
  "doc_b = Placemarks [cable_placemark ''Cable-B'' ''2000m'']"

text \<open>What the parser makes of such a placemark: the path, the cable and the raw record.\<close>

definition example_path :: "Coordinate list" where
  "example_path =
     [\<lparr>longitude = 1068 / 10, latitude = - (62 / 10), altitude = 0\<rparr>,
      \<lparr>longitude = 1069 / 10, latitude = - (63 / 10), altitude = 0\<rparr>]"

definition parsed_cable :: "string \<Rightarrow> real \<Rightarrow> Cable" where
  "parsed_cable name len =
     \<lparr>cab_name = name, cab_specification = ''Unknown'', number_of_cores = 0,
      fiber_length = len, cab_construction_status = ''Unknown'',
      cab_coordinates = example_path\<rparr>"

definition raw_cable :: "string \<Rightarrow> string \<Rightarrow> RawPlacemark" where
  "raw_cable name len =
     \<lparr>raw_name = name, raw_description = ''Fiber Length: '' @ len, raw_type = ''cable''\<rparr>"

text \<open>A cable planned and built with the same length and status.\<close>

definition planned_c1 :: CableDict where
  "planned_c1 =
     \<lparr>cd_name = Some ''C1'', cd_fiber_length_km = Some 10,
      cd_construction_status = Some ''Planned'', cd_specification = None\<rparr>"

definition built_c1 :: CableDict where
  "built_c1 =
     \<lparr>cd_name = Some ''C1'', cd_fiber_length_km = Some 10,
      cd_construction_status = Some ''Planned'', cd_specification = None\<rparr>"

definition built_c2 :: CableDict where
  "built_c2 =
     \<lparr>cd_name = Some ''C2'', cd_fiber_length_km = Some 12,
      cd_construction_status = Some ''In Service'', cd_specification = None\<rparr>"

definition measurement_c1 :: "real \<Rightarrow> OPMMeasurement" where
  "measurement_c1 loss =
     \<lparr>opm_cable_id = ''C1'', opm_segment_name = ''S1'', opm_loss_db = loss,
      opm_length_km = 10, opm_status = ''Pass''\<rparr>"

text \<open>
  Optical parameters with a power budget of 0 dB, both at a bound of their ranges
  (\<open>tx_power\<close> in [-10, 10], \<open>rx_sensitivity\<close> in [-40, -10]).
\<close>

definition low_budget_optical :: OpticalParameters where
  "low_budget_optical =
     \<lparr>tx_power = - 10, rx_sensitivity = - 10, wavelength = NM_1550,
      fiber_type = SINGLE_MODE\<rparr>"

text \<open>A reconciliation of one planned cable with two built ones and one measurement.\<close>

definition planned_snapshot :: NetworkDict where
  "planned_snapshot = \<lparr>nd_cables = Some [planned_c1]\<rparr>"

definition built_snapshot :: NetworkDict where
  "built_snapshot = \<lparr>nd_cables = Some [built_c1, built_c2]\<rparr>"

definition example_comparison :: NetworkComparison where
  "example_comparison =
     projr (compare_networks planned_snapshot built_snapshot (Some [measurement_c1 0]))"


section \<open>Properties of the link-budget engine\<close>

lemma power_budget_fields:
  "power_budget (calculate_power_budget optical loss segment)
     = round2 (tx_power optical - rx_sensitivity optical)"
  "total_loss (calculate_power_budget optical loss segment)
     = round2 (fiber_length_km segment * fiber_loss_per_km loss
               + of_int (splice_count segment) * splice_loss loss
               + of_int (connector_count segment) * connector_loss loss)"
  "available_margin (calculate_power_budget optical loss segment)
     = round2 (tx_power optical - rx_sensitivity optical
               - (fiber_length_km segment * fiber_loss_per_km loss
                  + of_int (splice_count segment) * splice_loss loss
                  + of_int (connector_count segment) * connector_loss loss)
               - safety_margin loss)"
  "status (calculate_power_budget optical loss segment)
     = determine_status (tx_power optical - rx_sensitivity optical
               - (fiber_length_km segment * fiber_loss_per_km loss
                  + of_int (splice_count segment) * splice_loss loss
                  + of_int (connector_count segment) * connector_loss loss)
               - safety_margin loss)"
  "quality_score (calculate_power_budget optical loss segment)
     = round2 (calculate_quality_score (tx_power optical - rx_sensitivity optical)
          (fiber_length_km segment * fiber_loss_per_km loss
                  + of_int (splice_count segment) * splice_loss loss
                  + of_int (connector_count segment) * connector_loss loss)
          (tx_power optical - rx_sensitivity optical
               - (fiber_length_km segment * fiber_loss_per_km loss
                  + of_int (splice_count segment) * splice_loss loss
                  + of_int (connector_count segment) * connector_loss loss)
               - safety_margin loss))"
  unfolding calculate_power_budget_def Let_def by simp_all

lemma round2_zero: "round2 0 = 0"
  by (simp add: round2_def round_half_even_def)

lemma clamp_sum_mono:
  fixes e :: real
  assumes "a \<le> b"
  shows "max 0 (min 100 (e + min 60 (max 0 a))) \<le> max 0 (min 100 (e + min 60 (max 0 b)))"
  using assms by (simp add: max_def min_def)

text \<open>
  C4, as the code computes it. With tx 3.0 dBm, rx -28.0 dBm, 10 km, 5 splices, 2
  connectors and the default loss parameters, \<open>calculate_power_budget\<close> returns power
  budget 31, total loss 5.0, margin 23.0 and status OK, and the quality score is 93.55: the
  loss efficiency is (1 - 5/31) * 40 = 33.548..., the margin adequacy is capped at 60, and
  the sum is below 100.
\<close>

theorem scenario_1_result:
  "total_loss (calculate_power_budget scenario_optical default_loss_params scenario_segment) = 5
   \<and> available_margin (calculate_power_budget scenario_optical default_loss_params scenario_segment) = 23
   \<and> status (calculate_power_budget scenario_optical default_loss_params scenario_segment) = ''OK''
   \<and> power_budget (calculate_power_budget scenario_optical default_loss_params scenario_segment) = 31
   \<and> quality_score (calculate_power_budget scenario_optical default_loss_params scenario_segment)
       = 9355 / 100"
  by (simp add: power_budget_fields scenario_optical_def default_loss_params_def
      scenario_segment_def calculate_quality_score_def determine_status_def
      round2_def round_half_even_def)

text \<open>C4 as stated fails: the quality score of scenario 1 is not 100.\<close>

theorem scenario_1_score_not_100:
  "quality_score (calculate_power_budget scenario_optical default_loss_params scenario_segment)
   \<noteq> 100"
  by (simp add: power_budget_fields scenario_optical_def default_loss_params_def
      scenario_segment_def calculate_quality_score_def determine_status_def
      round2_def round_half_even_def)

text \<open>
  C5 fails on the code: with \<open>fiber_loss_per_km = 0\<close>, a value that the claim counts as in
  range, \<open>calculate_max_distance\<close> raises \<open>ZeroDivisionError\<close>, whatever the other inputs
  are.
\<close>

theorem max_distance_zero_fiber_loss_raises:
  "calculate_max_distance optical (default_loss_params\<lparr>fiber_loss_per_km := 0\<rparr>) splices connectors
   = Inl ZeroDivisionError"
  by (simp add: calculate_max_distance_def)

text \<open>
  C6. For a fixed power budget and total loss the quality score does not decrease when
  the available margin grows, and it always lies between 0 and 100.
\<close>

theorem quality_score_monotone_bounded:
  assumes "m1 \<le> m2"
  shows "calculate_quality_score p t m1 \<le> calculate_quality_score p t m2
         \<and> 0 \<le> calculate_quality_score p t m \<and> calculate_quality_score p t m \<le> 100"
proof -
  have mono: "calculate_quality_score p t m1 \<le> calculate_quality_score p t m2"
  proof (cases "p \<le> 0")
    case True
    then show ?thesis by (simp add: calculate_quality_score_def)
  next
    case False
    from assms have "m1 / 10 * 60 \<le> m2 / 10 * 60" by simp
    from clamp_sum_mono [OF this] False show ?thesis
      unfolding calculate_quality_score_def Let_def by (simp only: if_False)
  qed
  have bounds: "0 \<le> calculate_quality_score p t m \<and> calculate_quality_score p t m \<le> 100"
    unfolding calculate_quality_score_def Let_def by (simp add: max_def min_def)
  from mono bounds show ?thesis by simp
qed

theorem quality_score_monotone_bounded_witness:
  "(2::real) \<le> 5
   \<and> calculate_quality_score 31 19 2 \<le> calculate_quality_score 31 19 5
   \<and> 0 \<le> calculate_quality_score 31 19 9 \<and> calculate_quality_score 31 19 9 \<le> 100
   \<and> calculate_quality_score 31 19 2 < calculate_quality_score 31 19 5"
proof -
  have h: "(2::real) \<le> 5" by simp
  have strict: "calculate_quality_score 31 19 2 < calculate_quality_score 31 19 5"
    by (simp add: calculate_quality_score_def Let_def)
  from quality_score_monotone_bounded [OF h, of 31 19 9] h strict show ?thesis by simp
qed

text \<open>
  C7 as stated fails. With a power budget of 0 dB, no splice, two connectors and the
  default loss parameters the distance is floored at 0, and a segment of that length has a
  margin of -4 dB, not 0.
\<close>

theorem max_distance_floored_margin_negative:
  "calculate_max_distance low_budget_optical default_loss_params 0 2 = Inr 0
   \<and> available_margin
        (calculate_power_budget low_budget_optical default_loss_params
           \<lparr>fiber_length_km = 0, splice_count = 0, connector_count = 2, seg_name = ''Segment''\<rparr>)
      = - 4"
  by (simp add: calculate_max_distance_def power_budget_fields low_budget_optical_def
      default_loss_params_def round2_def round_half_even_def)

lemma round_half_even_close: "\<bar>of_int (round_half_even y) - y\<bar> \<le> 1 / 2"
  unfolding round_half_even_def Let_def by (simp; linarith)

lemma round2_close: "\<bar>round2 x - x\<bar> \<le> 1 / 200"
proof -
  have "\<bar>of_int (round_half_even (x * 100)) - x * 100\<bar> \<le> 1 / 2"
    by (rule round_half_even_close)
  then show ?thesis unfolding round2_def by (simp add: field_simps abs_if split: if_splits)
qed

lemma round_half_even_nonpos: "y \<le> 0 \<Longrightarrow> round_half_even y \<le> 0"
  unfolding round_half_even_def Let_def by (simp; linarith)

lemma round2_nonpos: "x \<le> 0 \<Longrightarrow> round2 x \<le> 0"
proof -
  assume "x \<le> 0"
  then have "x * 100 \<le> 0" by simp
  then have "round_half_even (x * 100) \<le> 0" by (rule round_half_even_nonpos)
  then show ?thesis unfolding round2_def by simp
qed

lemma max_distance_value:
  assumes "0 < fiber_loss_per_km loss"
  shows "calculate_max_distance optical loss s c
         = Inr (max 0 (fibre_allowance optical loss s c / fiber_loss_per_km loss))"
  using assms by (simp add: calculate_max_distance_def fibre_allowance_def)

lemma margin_at_max_distance:
  assumes "0 < fiber_loss_per_km loss"
  shows "available_margin
           (calculate_power_budget optical loss
              \<lparr>fiber_length_km = max 0 (fibre_allowance optical loss s c / fiber_loss_per_km loss),
               splice_count = s, connector_count = c, seg_name = n\<rparr>)
         = round2 (min 0 (fibre_allowance optical loss s c))"
proof (cases "0 \<le> fibre_allowance optical loss s c")
  case True
  with assms have "max 0 (fibre_allowance optical loss s c / fiber_loss_per_km loss)
        * fiber_loss_per_km loss = fibre_allowance optical loss s c"
    by (simp add: max_def)
  then show ?thesis using True
    by (simp add: power_budget_fields fibre_allowance_def min_def)
next
  case False
  with assms have "max 0 (fibre_allowance optical loss s c / fiber_loss_per_km loss) = 0"
    by (simp add: max_def zero_le_divide_iff)
  then show ?thesis using False
    by (simp add: power_budget_fields fibre_allowance_def min_def algebra_simps)
qed

text \<open>
  C7, amended. For inputs within the bounds above, \<open>calculate_max_distance\<close> returns a
  distance, which is never negative. A segment of that length, with the same splice and
  connector counts, never has a positive available margin. The margin is 0 when the power
  budget covers the splice losses, the connector losses and the safety margin. When the
  budget falls short, the margin is within 0.01 dB of the (negative) shortfall, and the
  distance is 0 once the shortfall reaches 0.01 dB.
\<close>

theorem max_distance_inverts_loss_equation:
  assumes "bounded_inputs optical loss s c"
  shows "\<exists>d. calculate_max_distance optical loss s c = Inr d \<and> 0 \<le> d \<and>
     (let avail = fibre_allowance optical loss s c;
          m = available_margin
                (calculate_power_budget optical loss
                   \<lparr>fiber_length_km = d, splice_count = s, connector_count = c, seg_name = n\<rparr>)
      in m \<le> 0
         \<and> (0 \<le> avail \<longrightarrow> m = 0)
         \<and> (avail < 0 \<longrightarrow> \<bar>m - avail\<bar> \<le> 1 / 100)
         \<and> (avail \<le> - (1 / 100) \<longrightarrow> d = 0))"
proof -
  from assms have f: "0 < fiber_loss_per_km loss" by (simp add: bounded_inputs_def)
  let ?a = "fibre_allowance optical loss s c"
  let ?d = "max 0 (?a / fiber_loss_per_km loss)"
  let ?m = "available_margin
                (calculate_power_budget optical loss
                   \<lparr>fiber_length_km = ?d, splice_count = s, connector_count = c, seg_name = n\<rparr>)"
  have d: "calculate_max_distance optical loss s c = Inr ?d"
    by (rule max_distance_value [OF f])
  have m: "?m = round2 (min 0 ?a)" by (rule margin_at_max_distance [OF f])
  have 1: "?m \<le> 0" unfolding m by (rule round2_nonpos) simp
  have 2: "0 \<le> ?a \<longrightarrow> ?m = 0" unfolding m by (simp add: min_def round2_zero)
  have 3: "?a < 0 \<longrightarrow> \<bar>?m - ?a\<bar> \<le> 1 / 100"
  proof
    assume "?a < 0"
    then have "?m = round2 ?a" unfolding m by (simp add: min_def)
    with round2_close [of ?a] show "\<bar>?m - ?a\<bar> \<le> 1 / 100" by simp
  qed
  have 4: "?a \<le> - (1 / 100) \<longrightarrow> ?d = 0"
  proof
    assume "?a \<le> - (1 / 100)"
    then have "?a < 0" by simp
    with f have "?a / fiber_loss_per_km loss < 0" by (simp add: divide_less_0_iff)
    then show "?d = 0" by (simp add: max_def)
  qed
  have 0: "0 \<le> ?d" by simp
  from d 0 1 2 3 4 show ?thesis unfolding Let_def by blast
qed

theorem max_distance_inverts_loss_equation_witness:
  "bounded_inputs scenario_optical default_loss_params 5 2
   \<and> 0 \<le> fibre_allowance scenario_optical default_loss_params 5 2
   \<and> calculate_max_distance scenario_optical default_loss_params 5 2 = Inr (530 / 7)
   \<and> available_margin
        (calculate_power_budget scenario_optical default_loss_params
           \<lparr>fiber_length_km = 530 / 7, splice_count = 5, connector_count = 2,
            seg_name = ''Segment''\<rparr>) = 0
   \<and> bounded_inputs low_budget_optical default_loss_params 0 2
   \<and> fibre_allowance low_budget_optical default_loss_params 0 2 = - 4
   \<and> calculate_max_distance low_budget_optical default_loss_params 0 2 = Inr 0
   \<and> \<bar>available_margin
        (calculate_power_budget low_budget_optical default_loss_params
           \<lparr>fiber_length_km = 0, splice_count = 0, connector_count = 2,
            seg_name = ''Segment''\<rparr>) - (- 4)\<bar> \<le> 1 / 100"
proof -
  have b1: "bounded_inputs scenario_optical default_loss_params 5 2"
    by (simp add: bounded_inputs_def scenario_optical_def default_loss_params_def)
  have a1: "fibre_allowance scenario_optical default_loss_params 5 2 = 53 / 2"
    by (simp add: fibre_allowance_def scenario_optical_def default_loss_params_def)
  have d1: "calculate_max_distance scenario_optical default_loss_params 5 2 = Inr (530 / 7)"
    by (simp add: calculate_max_distance_def scenario_optical_def default_loss_params_def)
  from max_distance_inverts_loss_equation [OF b1, of "''Segment''"]
  obtain x where x: "calculate_max_distance scenario_optical default_loss_params 5 2 = Inr x"
    and mx: "0 \<le> fibre_allowance scenario_optical default_loss_params 5 2 \<longrightarrow>
      available_margin
        (calculate_power_budget scenario_optical default_loss_params
           \<lparr>fiber_length_km = x, splice_count = 5, connector_count = 2,
            seg_name = ''Segment''\<rparr>) = 0"
    unfolding Let_def by blast
  from x d1 have "x = 530 / 7" by simp
  with mx a1 have m1: "available_margin
        (calculate_power_budget scenario_optical default_loss_params
           \<lparr>fiber_length_km = 530 / 7, splice_count = 5, connector_count = 2,
            seg_name = ''Segment''\<rparr>) = 0"
    by simp
  have b2: "bounded_inputs low_budget_optical default_loss_params 0 2"
    by (simp add: bounded_inputs_def low_budget_optical_def default_loss_params_def)
  have a2: "fibre_allowance low_budget_optical default_loss_params 0 2 = - 4"
    by (simp add: fibre_allowance_def low_budget_optical_def default_loss_params_def)
  from max_distance_inverts_loss_equation [OF b2, of "''Segment''"]
  obtain y where y: "calculate_max_distance low_budget_optical default_loss_params 0 2 = Inr y"
    and y0: "fibre_allowance low_budget_optical default_loss_params 0 2 \<le> - (1 / 100)
             \<longrightarrow> y = 0"
    and my: "fibre_allowance low_budget_optical default_loss_params 0 2 < 0 \<longrightarrow>
      \<bar>available_margin
        (calculate_power_budget low_budget_optical default_loss_params
           \<lparr>fiber_length_km = y, splice_count = 0, connector_count = 2,
            seg_name = ''Segment''\<rparr>)
       - fibre_allowance low_budget_optical default_loss_params 0 2\<bar> \<le> 1 / 100"
    unfolding Let_def by blast
  from y0 a2 have "y = 0" by simp
  with y my a2 have "calculate_max_distance low_budget_optical default_loss_params 0 2 = Inr 0"
    and "\<bar>available_margin
        (calculate_power_budget low_budget_optical default_loss_params
           \<lparr>fiber_length_km = 0, splice_count = 0, connector_count = 2,
            seg_name = ''Segment''\<rparr>) - (- 4)\<bar> \<le> 1 / 100"
    by simp_all
  with b1 a1 d1 m1 b2 a2 show ?thesis by simp
qed

section \<open>Properties of the reconciliation engine\<close>

lemma cable_lookup_total:
  "list_all (\<lambda>c. cd_name c \<noteq> None) cs \<Longrightarrow> \<exists>al. cable_lookup acc cs = Inr al"
  by (induction cs arbitrary: acc) (auto split: option.splits)

lemma cable_lookup_keys:
  "cable_lookup acc cs = Inr al \<Longrightarrow> distinct (map fst acc) \<Longrightarrow>
     distinct (map fst al) \<and>
     set (map fst al) = set (map fst acc) \<union> {n. \<exists>c \<in> set cs. cd_name c = Some n}"
proof (induction cs arbitrary: acc)
  case Nil
  then show ?case by simp
next
  case (Cons c cs)
  then show ?case
    by (auto split: option.splits simp: distinct_update dom_update)
qed

lemma compare_cable_id: "cable_id (compare_cable n p b opm) = n"
  by (simp add: compare_cable_def Let_def case_prod_beta split: option.splits)

lemma create_unplanned_id: "cable_id (create_unplanned_cable_result n b opm) = n"
  by (simp add: create_unplanned_cable_result_def Let_def)

lemma compare_networks_Inr:
  assumes "compare_networks p b m = Inr r"
  obtains pl bl where
    "cable_lookup [] (case nd_cables p of None \<Rightarrow> [] | Some cs \<Rightarrow> cs) = Inr pl"
    "cable_lookup [] (case nd_cables b of None \<Rightarrow> [] | Some cs \<Rightarrow> cs) = Inr bl"
    "cable_comparisons r =
       map (\<lambda>(n, pc). compare_cable n pc (map_of bl n) (map_of (opm_lookup m) n)) pl
       @ map (\<lambda>(n, bc). create_unplanned_cable_result n bc (map_of (opm_lookup m) n))
           (filter (\<lambda>(n, bc). map_of pl n = None) bl)"
    "discrepancies r = identify_discrepancies (cable_comparisons r)"
  using assms unfolding compare_networks_def Let_def
  by (auto split: sum.splits)

lemma comparison_ids:
  assumes "cable_comparisons r =
       map (\<lambda>(n, pc). compare_cable n pc (map_of bl n) (map_of ol n)) pl
       @ map (\<lambda>(n, bc). create_unplanned_cable_result n bc (map_of ol n))
           (filter (\<lambda>(n, bc). map_of pl n = None) bl)"
  shows "map cable_id (cable_comparisons r)
         = map fst pl @ filter (\<lambda>n. n \<notin> set (map fst pl)) (map fst bl)"
proof -
  have a: "map cable_id (map (\<lambda>(n, pc). compare_cable n pc (map_of bl n) (map_of ol n)) pl)
           = map fst pl"
    by (induction pl) (auto simp: compare_cable_id)
  have b: "map cable_id (map (\<lambda>(n, bc). create_unplanned_cable_result n bc (map_of ol n)) xs)
           = map fst xs" for xs
    by (induction xs) (auto simp: create_unplanned_id)
  have c: "map fst (filter (\<lambda>(n, bc). map_of pl n = None) bl)
           = filter (\<lambda>n. n \<notin> set (map fst pl)) (map fst bl)"
    by (induction bl) (force simp: map_of_eq_None_iff)+
  show ?thesis by (simp only: assms map_append a b c)
qed

lemma count_in_distinct:
  "distinct xs \<Longrightarrow> length (filter (\<lambda>x. x = n) xs) = (if n \<in> set xs then 1 else 0)"
  by (induction xs) auto

lemma count_by_id:
  "length (filter (\<lambda>c. cable_id c = n) cs) = length (filter (\<lambda>x. x = n) (map cable_id cs))"
  by (induction cs) auto

lemma compare_networks_total:
  assumes "well_keyed planned" and "well_keyed built"
  shows "\<exists>r. compare_networks planned built opm = Inr r"
proof -
  from assms(1) obtain pl where
    pl: "cable_lookup [] (case nd_cables planned of None \<Rightarrow> [] | Some cs \<Rightarrow> cs) = Inr pl"
    unfolding well_keyed_def using cable_lookup_total by blast
  from assms(2) obtain bl where
    bl: "cable_lookup [] (case nd_cables built of None \<Rightarrow> [] | Some cs \<Rightarrow> cs) = Inr bl"
    unfolding well_keyed_def using cable_lookup_total by blast
  from pl bl show ?thesis
    unfolding compare_networks_def Let_def by simp
qed

text \<open>
  C8. For two snapshots in which every cable has a name, \<open>compare_networks\<close> returns a
  result, and for every name the number of comparison results that carry it is 1 when the
  name occurs in the planned snapshot, in the built one or in both, and 0 otherwise.
\<close>

theorem coverage_exactly_once:
  assumes "well_keyed planned" and "well_keyed built"
  shows "\<exists>r. compare_networks planned built opm = Inr r \<and>
           (\<forall>n. length (filter (\<lambda>c. cable_id c = n) (cable_comparisons r))
                = (if n \<in> cable_names planned \<union> cable_names built then 1 else 0))"
proof -
  from compare_networks_total [OF assms]
  obtain r where r: "compare_networks planned built opm = Inr r" by blast
  from r obtain pl bl where
    pl: "cable_lookup [] (case nd_cables planned of None \<Rightarrow> [] | Some cs \<Rightarrow> cs) = Inr pl"
    and bl: "cable_lookup [] (case nd_cables built of None \<Rightarrow> [] | Some cs \<Rightarrow> cs) = Inr bl"
    and cs: "cable_comparisons r =
       map (\<lambda>(n, pc). compare_cable n pc (map_of bl n) (map_of (opm_lookup opm) n)) pl
       @ map (\<lambda>(n, bc). create_unplanned_cable_result n bc (map_of (opm_lookup opm) n))
           (filter (\<lambda>(n, bc). map_of pl n = None) bl)"
    by (rule compare_networks_Inr)
  from cable_lookup_keys [OF pl] have dp: "distinct (map fst pl)"
    and sp: "set (map fst pl) = cable_names planned"
    by (simp_all add: cable_names_def)
  from cable_lookup_keys [OF bl] have db: "distinct (map fst bl)"
    and sb: "set (map fst bl) = cable_names built"
    by (simp_all add: cable_names_def)
  let ?ids = "map fst pl @ filter (\<lambda>n. n \<notin> set (map fst pl)) (map fst bl)"
  have ids: "map cable_id (cable_comparisons r) = ?ids"
    using comparison_ids [OF cs] by simp
  have d: "distinct ?ids" using dp db by auto
  have s: "set ?ids = cable_names planned \<union> cable_names built"
    using sp sb by auto
  have "length (filter (\<lambda>c. cable_id c = n) (cable_comparisons r))
                = (if n \<in> cable_names planned \<union> cable_names built then 1 else 0)" for n
  proof -
    have "length (filter (\<lambda>c. cable_id c = n) (cable_comparisons r))
          = length (filter (\<lambda>x. x = n) ?ids)"
      by (simp only: count_by_id ids)
    also have "\<dots> = (if n \<in> set ?ids then 1 else 0)"
      by (rule count_in_distinct [OF d])
    finally show ?thesis by (simp only: s)
  qed
  with r show ?thesis by blast
qed

lemma insort_key_past_smaller:
  "\<forall>y \<in> set ys. f y < f x \<Longrightarrow> insort_key f x (ys @ zs) = ys @ insort_key f x zs"
  by (induction ys) auto

lemma sort_key_two_tiers:
  fixes f :: "'a \<Rightarrow> nat"
  assumes "\<forall>x \<in> set xs. f x = 0 \<or> f x = 1"
  shows "sort_key f xs = filter (\<lambda>x. f x = 0) xs @ filter (\<lambda>x. f x = 1) xs"
  using assms
proof (induction xs)
  case Nil
  then show ?case by simp
next
  case (Cons x xs)
  then have ih: "sort_key f xs = filter (\<lambda>x. f x = 0) xs @ filter (\<lambda>x. f x = 1) xs"
    by simp
  from Cons.prems have "f x = 0 \<or> f x = 1" by simp
  then show ?case
  proof
    assume z: "f x = 0"
    then have "insort_key f x (sort_key f xs) = x # sort_key f xs"
      by (intro insort_is_Cons) simp
    with z ih show ?thesis by simp
  next
    assume o: "f x = 1"
    have "insort_key f x (filter (\<lambda>x. f x = 0) xs @ filter (\<lambda>x. f x = 1) xs)
          = filter (\<lambda>x. f x = 0) xs @ insort_key f x (filter (\<lambda>x. f x = 1) xs)"
      by (rule insort_key_past_smaller) (simp add: o)
    moreover have "insort_key f x (filter (\<lambda>x. f x = 1) xs) = x # filter (\<lambda>x. f x = 1) xs"
      by (intro insort_is_Cons) (simp add: o)
    ultimately show ?thesis using o ih by simp
  qed
qed

lemma severity_order_simps:
  "severity_order s = 0 \<longleftrightarrow> s = ''Major Deviation''"
  "severity_order s = 1 \<longleftrightarrow> s = ''Minor Deviation''"
  "severity_order s = Suc 0 \<longleftrightarrow> s = ''Minor Deviation''"
  by (auto simp: severity_order_def)

lemma severity_discrepancy_of: "severity (discrepancy_of c) = compliance_status c"
  by (simp add: discrepancy_of_def)

lemma identify_discrepancies_tiers:
  "identify_discrepancies cs =
     map discrepancy_of (filter (\<lambda>c. compliance_status c = ''Major Deviation'') cs)
     @ map discrepancy_of (filter (\<lambda>c. compliance_status c = ''Minor Deviation'') cs)"
proof -
  let ?sel = "filter (\<lambda>cr. compliance_status cr \<in> set [''Minor Deviation'', ''Major Deviation'']) cs"
  let ?ds = "map discrepancy_of ?sel"
  let ?k = "\<lambda>d. severity_order (severity d)"
  have "\<forall>d \<in> set ?ds. ?k d = 0 \<or> ?k d = 1"
    by (auto simp: severity_order_def severity_discrepancy_of)
  then have "sort_key ?k ?ds = filter (\<lambda>d. ?k d = 0) ?ds @ filter (\<lambda>d. ?k d = 1) ?ds"
    by (rule sort_key_two_tiers)
  moreover have "filter (\<lambda>d. ?k d = 0) ?ds
      = map discrepancy_of (filter (\<lambda>c. compliance_status c = ''Major Deviation'') cs)"
    by (induction cs) (auto simp: severity_order_simps severity_discrepancy_of)
  moreover have "filter (\<lambda>d. ?k d = 1) ?ds
      = map discrepancy_of (filter (\<lambda>c. compliance_status c = ''Minor Deviation'') cs)"
    by (induction cs) (auto simp: severity_order_simps severity_discrepancy_of)
  ultimately show ?thesis by (simp only: identify_discrepancies_def)
qed

lemma compare_cable_status:
  "compliance_status (compare_cable n p b opm)
     \<in> {''Compliant'', ''Minor Deviation'', ''Major Deviation''}"
  by (simp add: compare_cable_def Let_def case_prod_beta split: option.splits)

lemma create_unplanned_status:
  "compliance_status (create_unplanned_cable_result n b opm) = ''Major Deviation''"
  by (simp add: create_unplanned_cable_result_def Let_def)

lemma compare_networks_statuses:
  assumes "compare_networks p b m = Inr r" and "c \<in> set (cable_comparisons r)"
  shows "compliance_status c \<in> {''Compliant'', ''Minor Deviation'', ''Major Deviation''}"
proof -
  from assms(1) obtain pl bl where
    cs: "cable_comparisons r =
       map (\<lambda>(n, pc). compare_cable n pc (map_of bl n) (map_of (opm_lookup m) n)) pl
       @ map (\<lambda>(n, bc). create_unplanned_cable_result n bc (map_of (opm_lookup m) n))
           (filter (\<lambda>(n, bc). map_of pl n = None) bl)"
    by (rule compare_networks_Inr)
  from assms(2) show ?thesis unfolding cs
    using compare_cable_status create_unplanned_status by auto
qed

lemma mset_two_tiers:
  assumes "\<forall>c \<in> set cs. compliance_status c \<in> {''Compliant'', ''Minor Deviation'', ''Major Deviation''}"
  shows "mset (filter (\<lambda>c. compliance_status c = ''Major Deviation'') cs
              @ filter (\<lambda>c. compliance_status c = ''Minor Deviation'') cs)
         = mset (filter (\<lambda>c. compliance_status c \<noteq> ''Compliant'') cs)"
  using assms by (induction cs) auto

lemma tiers_ordered:
  assumes "ds = map discrepancy_of (filter (\<lambda>c. compliance_status c = ''Major Deviation'') cs)
     @ map discrepancy_of (filter (\<lambda>c. compliance_status c = ''Minor Deviation'') cs)"
    and "i < j" and "j < length ds"
  shows "\<not> (severity (ds ! i) = ''Minor Deviation'' \<and> severity (ds ! j) = ''Major Deviation'')"
proof
  let ?A = "map discrepancy_of (filter (\<lambda>c. compliance_status c = ''Major Deviation'') cs)"
  let ?B = "map discrepancy_of (filter (\<lambda>c. compliance_status c = ''Minor Deviation'') cs)"
  assume h: "severity (ds ! i) = ''Minor Deviation'' \<and> severity (ds ! j) = ''Major Deviation''"
  have A: "\<forall>d \<in> set ?A. severity d = ''Major Deviation''"
    by (auto simp: severity_discrepancy_of)
  have B: "\<forall>d \<in> set ?B. severity d = ''Minor Deviation''"
    by (auto simp: severity_discrepancy_of)
  have "\<not> i < length ?A"
  proof
    assume "i < length ?A"
    then have "ds ! i \<in> set ?A" unfolding assms(1) by (simp only: nth_append if_True nth_mem)
    with A have "severity (ds ! i) = ''Major Deviation''" by blast
    with h show False by simp
  qed
  with assms(2) have jA: "\<not> j < length ?A" by simp
  with assms(3) have "j - length ?A < length ?B" unfolding assms(1) by simp
  then have "?B ! (j - length ?A) \<in> set ?B" by (rule nth_mem)
  moreover from jA have "ds ! j = ?B ! (j - length ?A)"
    unfolding assms(1) by (simp only: nth_append if_False)
  ultimately have "severity (ds ! j) = ''Minor Deviation''" using B by metis
  with h show False by simp
qed

text \<open>
  C9. In the result of a reconciliation the discrepancy list is the Major Deviation
  comparisons in comparison order followed by the Minor Deviation comparisons in
  comparison order; as a multiset it is the non-Compliant comparisons; and no Minor
  Deviation entry stands before a Major Deviation entry.
\<close>

theorem discrepancies_major_first_stable:
  assumes "compare_networks p b m = Inr r"
  shows "discrepancies r =
           map discrepancy_of
             (filter (\<lambda>c. compliance_status c = ''Major Deviation'') (cable_comparisons r))
           @ map discrepancy_of
               (filter (\<lambda>c. compliance_status c = ''Minor Deviation'') (cable_comparisons r))
         \<and> mset (discrepancies r) =
             mset (map discrepancy_of
                     (filter (\<lambda>c. compliance_status c \<noteq> ''Compliant'') (cable_comparisons r)))
         \<and> (\<forall>i j. i < j \<and> j < length (discrepancies r) \<longrightarrow>
               \<not> (severity (discrepancies r ! i) = ''Minor Deviation''
                  \<and> severity (discrepancies r ! j) = ''Major Deviation''))"
proof -
  from assms have d: "discrepancies r = identify_discrepancies (cable_comparisons r)"
    by (rule compare_networks_Inr)
  have eq: "discrepancies r =
           map discrepancy_of
             (filter (\<lambda>c. compliance_status c = ''Major Deviation'') (cable_comparisons r))
           @ map discrepancy_of
               (filter (\<lambda>c. compliance_status c = ''Minor Deviation'') (cable_comparisons r))"
    unfolding d by (rule identify_discrepancies_tiers)
  have st: "\<forall>c \<in> set (cable_comparisons r).
        compliance_status c \<in> {''Compliant'', ''Minor Deviation'', ''Major Deviation''}"
    using compare_networks_statuses [OF assms] by blast
  have ms: "mset (discrepancies r) =
             mset (map discrepancy_of
                     (filter (\<lambda>c. compliance_status c \<noteq> ''Compliant'') (cable_comparisons r)))"
    unfolding eq using mset_two_tiers [OF st, THEN arg_cong, of "image_mset discrepancy_of"]
    by simp
  from eq ms tiers_ordered [OF eq] show ?thesis by blast
qed

lemma example_well_keyed: "well_keyed planned_snapshot" "well_keyed built_snapshot"
  by (simp_all add: well_keyed_def planned_snapshot_def built_snapshot_def planned_c1_def
      built_c1_def built_c2_def)

lemma example_comparison_Inr:
  "compare_networks planned_snapshot built_snapshot (Some [measurement_c1 0])
   = Inr example_comparison"
proof -
  from compare_networks_total [OF example_well_keyed]
  obtain r where "compare_networks planned_snapshot built_snapshot (Some [measurement_c1 0]) = Inr r"
    by blast
  then show ?thesis by (simp add: example_comparison_def)
qed

lemma example_lookups:
  "cable_lookup [] [planned_c1] = Inr [(''C1'', planned_c1)]"
  "cable_lookup [] [built_c1, built_c2] = Inr [(''C1'', built_c1), (''C2'', built_c2)]"
  "opm_lookup (Some [measurement_c1 0]) = [(''C1'', measurement_c1 0)]"
  by (simp_all add: planned_c1_def built_c1_def built_c2_def opm_lookup_def measurement_c1_def)

lemma example_comparisons:
  "cable_comparisons example_comparison =
     [compare_cable ''C1'' planned_c1 (Some built_c1) (Some (measurement_c1 0)),
      create_unplanned_cable_result ''C2'' built_c2 None]"
  by (simp add: example_comparison_def compare_networks_def planned_snapshot_def
      built_snapshot_def example_lookups Let_def del: cable_lookup.simps)

lemma compare_cable_c1:
  "compare_cable ''C1'' planned_c1 (Some built_c1) (Some (measurement_c1 loss)) =
     \<lparr>cable_id = ''C1'', planned_length_km = 10, built_length_km = 10,
      length_variance_km = 0, length_variance_pct = 0,
      planned_status = ''Planned'', built_status = ''Planned'', status_match = True,
      planned_loss_db = None, measured_loss_db = Some loss, loss_variance_db = None,
      compliance_status = ''Minor Deviation'', remarks = [LossVarianceDetected]\<rparr>"
  by (simp add: compare_cable_def planned_c1_def built_c1_def measurement_c1_def
      LENGTH_TOLERANCE_PCT_def Let_def)

lemma unplanned_c2:
  "create_unplanned_cable_result ''C2'' built_c2 None =
     \<lparr>cable_id = ''C2'', planned_length_km = 0, built_length_km = 12,
      length_variance_km = 12, length_variance_pct = 100,
      planned_status = ''Not Planned'', built_status = ''In Service'', status_match = False,
      planned_loss_db = None, measured_loss_db = None, loss_variance_db = None,
      compliance_status = ''Major Deviation'', remarks = [BuiltNotPlanned]\<rparr>"
  by (simp add: create_unplanned_cable_result_def built_c2_def)

lemma example_names:
  "cable_names planned_snapshot = {''C1''}" "cable_names built_snapshot = {''C1'', ''C2''}"
  by (auto simp: cable_names_def planned_snapshot_def built_snapshot_def planned_c1_def
      built_c1_def built_c2_def)

theorem coverage_exactly_once_witness:
  "well_keyed planned_snapshot \<and> well_keyed built_snapshot
   \<and> compare_networks planned_snapshot built_snapshot (Some [measurement_c1 0])
       = Inr example_comparison
   \<and> map cable_id (cable_comparisons example_comparison) = [''C1'', ''C2'']
   \<and> length (filter (\<lambda>c. cable_id c = ''C1'') (cable_comparisons example_comparison)) = 1
   \<and> length (filter (\<lambda>c. cable_id c = ''C2'') (cable_comparisons example_comparison)) = 1
   \<and> length (filter (\<lambda>c. cable_id c = ''C3'') (cable_comparisons example_comparison)) = 0"
proof -
  from coverage_exactly_once [OF example_well_keyed, of "Some [measurement_c1 0]"]
  have "\<forall>n. length (filter (\<lambda>c. cable_id c = n) (cable_comparisons example_comparison))
                = (if n \<in> cable_names planned_snapshot \<union> cable_names built_snapshot then 1 else 0)"
    by (simp add: example_comparison_Inr)
  then have "length (filter (\<lambda>c. cable_id c = ''C1'') (cable_comparisons example_comparison)) = 1"
    "length (filter (\<lambda>c. cable_id c = ''C2'') (cable_comparisons example_comparison)) = 1"
    "length (filter (\<lambda>c. cable_id c = ''C3'') (cable_comparisons example_comparison)) = 0"
    by (simp_all add: example_names)
  moreover have "map cable_id (cable_comparisons example_comparison) = [''C1'', ''C2'']"
    by (simp add: example_comparisons compare_cable_id create_unplanned_id)
  ultimately show ?thesis
    using example_well_keyed example_comparison_Inr by simp
qed

theorem discrepancies_major_first_stable_witness:
  "compare_networks planned_snapshot built_snapshot (Some [measurement_c1 0])
       = Inr example_comparison
   \<and> map compliance_status (cable_comparisons example_comparison)
       = [''Minor Deviation'', ''Major Deviation'']
   \<and> discrepancies example_comparison =
       [discrepancy_of (create_unplanned_cable_result ''C2'' built_c2 None),
        discrepancy_of (compare_cable ''C1'' planned_c1 (Some built_c1) (Some (measurement_c1 0)))]
   \<and> map severity (discrepancies example_comparison) = [''Major Deviation'', ''Minor Deviation'']
   \<and> (0::nat) < 1 \<and> 1 < length (discrepancies example_comparison)
   \<and> severity (discrepancies example_comparison ! 0) = ''Major Deviation''
   \<and> severity (discrepancies example_comparison ! 1) = ''Minor Deviation''"
proof -
  have st: "map compliance_status (cable_comparisons example_comparison)
       = [''Minor Deviation'', ''Major Deviation'']"
    by (simp add: example_comparisons compare_cable_c1 unplanned_c2)
  from discrepancies_major_first_stable [OF example_comparison_Inr]
  have "discrepancies example_comparison =
           map discrepancy_of
             (filter (\<lambda>c. compliance_status c = ''Major Deviation'') (cable_comparisons example_comparison))
           @ map discrepancy_of
               (filter (\<lambda>c. compliance_status c = ''Minor Deviation'') (cable_comparisons example_comparison))"
    by blast
  then have d: "discrepancies example_comparison =
       [discrepancy_of (create_unplanned_cable_result ''C2'' built_c2 None),
        discrepancy_of (compare_cable ''C1'' planned_c1 (Some built_c1) (Some (measurement_c1 0)))]"
    by (simp add: example_comparisons compare_cable_c1 unplanned_c2)
  then have sv: "map severity (discrepancies example_comparison) = [''Major Deviation'', ''Minor Deviation'']"
    by (simp add: severity_discrepancy_of compare_cable_c1 unplanned_c2)
  from d have ix: "1 < length (discrepancies example_comparison)"
    "severity (discrepancies example_comparison ! 0) = ''Major Deviation''"
    "severity (discrepancies example_comparison ! 1) = ''Minor Deviation''"
    by (simp_all add: severity_discrepancy_of compare_cable_c1 unplanned_c2)
  from st d sv ix example_comparison_Inr show ?thesis by simp
qed

lemma compare_cable_loss_fields:
  "planned_loss_db (compare_cable n p b opm) = None"
  "loss_variance_db (compare_cable n p b opm) = None"
  "measured_loss_db (compare_cable n p b opm) \<noteq> None \<Longrightarrow>
     compliance_status (compare_cable n p b opm) \<noteq> ''Compliant''"
  by (auto simp add: compare_cable_def Let_def case_prod_beta split: option.splits if_splits)

lemma create_unplanned_loss_fields:
  "planned_loss_db (create_unplanned_cable_result n b opm) = None"
  "loss_variance_db (create_unplanned_cable_result n b opm) = None"
  by (simp_all add: create_unplanned_cable_result_def Let_def)

text \<open>
  C10. Every comparison result of \<open>compare_networks\<close> has \<open>planned_loss_db = None\<close> and
  \<open>loss_variance_db = None\<close>, and a result that carries a measured loss is never
  Compliant: the comparison of the measured with the planned loss cannot succeed.
\<close>

theorem planned_loss_never_set:
  assumes "compare_networks p b m = Inr r"
  shows "\<forall>c \<in> set (cable_comparisons r).
           planned_loss_db c = None \<and> loss_variance_db c = None
           \<and> (measured_loss_db c \<noteq> None \<longrightarrow> compliance_status c \<noteq> ''Compliant'')"
proof -
  from assms obtain pl bl where
    cs: "cable_comparisons r =
       map (\<lambda>(n, pc). compare_cable n pc (map_of bl n) (map_of (opm_lookup m) n)) pl
       @ map (\<lambda>(n, bc). create_unplanned_cable_result n bc (map_of (opm_lookup m) n))
           (filter (\<lambda>(n, bc). map_of pl n = None) bl)"
    by (rule compare_networks_Inr)
  show ?thesis unfolding cs
    using compare_cable_loss_fields create_unplanned_loss_fields create_unplanned_status
    by auto
qed

theorem planned_loss_never_set_witness:
  "compare_networks planned_snapshot built_snapshot (Some [measurement_c1 0])
       = Inr example_comparison
   \<and> cable_comparisons example_comparison ! 0 \<in> set (cable_comparisons example_comparison)
   \<and> measured_loss_db (cable_comparisons example_comparison ! 0) = Some 0
   \<and> planned_loss_db (cable_comparisons example_comparison ! 0) = None
   \<and> loss_variance_db (cable_comparisons example_comparison ! 0) = None
   \<and> compliance_status (cable_comparisons example_comparison ! 0) = ''Minor Deviation''"
proof -
  have m: "cable_comparisons example_comparison ! 0 \<in> set (cable_comparisons example_comparison)"
    by (simp add: example_comparisons)
  have v: "measured_loss_db (cable_comparisons example_comparison ! 0) = Some 0"
    "compliance_status (cable_comparisons example_comparison ! 0) = ''Minor Deviation''"
    by (simp_all add: example_comparisons compare_cable_c1)
  from planned_loss_never_set [OF example_comparison_Inr] m
  have "planned_loss_db (cable_comparisons example_comparison ! 0) = None
        \<and> loss_variance_db (cable_comparisons example_comparison ! 0) = None"
    by blast
  with m v example_comparison_Inr show ?thesis by simp
qed

text \<open>
  C2 fails on the code. A cable planned and built with the same length (variance 0%) that
  has a measurement is classified Minor Deviation with the remark
  \<open>'Loss variance detected'\<close> for every measured loss, so also for a measured loss equal to
  any planned loss one may take; without a measurement it is Compliant.
\<close>

theorem measured_cable_always_minor_deviation:
  "compliance_status
     (compare_cable ''C1'' planned_c1 (Some built_c1) (Some (measurement_c1 loss)))
     = ''Minor Deviation''
   \<and> remarks (compare_cable ''C1'' planned_c1 (Some built_c1) (Some (measurement_c1 loss)))
     = [LossVarianceDetected]
   \<and> length_variance_pct
       (compare_cable ''C1'' planned_c1 (Some built_c1) (Some (measurement_c1 loss))) = 0
   \<and> measured_loss_db
       (compare_cable ''C1'' planned_c1 (Some built_c1) (Some (measurement_c1 loss))) = Some loss
   \<and> compliance_status (compare_cable ''C1'' planned_c1 (Some built_c1) None) = ''Compliant''"
  by (simp add: compare_cable_def planned_c1_def built_c1_def measurement_c1_def
      LENGTH_TOLERANCE_PCT_def Let_def)

section \<open>Properties of the geo-document parser\<close>

lemmas str_simps = lower_def lower_char_def starts_with_def is_space_def strip_def split_ws_def
  is_digit_def digit_val_def nat_of_digits_def py_float_def parse_unsigned_def

lemma example_path_parsed:
  "parse_coordinates (Some ''106.8,-6.2,0 106.9,-6.3,0'') = example_path"
  by (simp add: parse_coordinates_def parse_coordinate_part_def List.map_filter_def
      example_path_def str_simps)

lemma parse_length_examples:
  "parse_length ''1.5km'' = 0" "parse_length ''123m'' = 123"
  "parse_length ''1000m'' = 1000" "parse_length ''2000m'' = 2000"
  by (simp_all add: parse_length_def str_simps)

lemma parse_cable_placemark:
  assumes "extract_field (''Fiber Length: '' @ len) ''Fiber Length'' = Some t" and "t \<noteq> []"
    and "extract_field (''Fiber Length: '' @ len) ''Number of Core'' = None"
    and "extract_field (''Fiber Length: '' @ len) ''Specification'' = None"
    and "extract_field (''Fiber Length: '' @ len) ''Construction Status'' = None"
  shows "parse_cable (cable_placemark n len) n (''Fiber Length: '' @ len)
         = Some (parsed_cable n (parse_length t))"
  using assms example_path_parsed
  by (simp add: parse_cable_def cable_placemark_def parsed_cable_def or_else_def
      example_path_def)

lemma parse_placemark_cable:
  assumes "\<not> is_pole n (''Fiber Length: '' @ len)" and "\<not> is_odp n (''Fiber Length: '' @ len)"
    and "is_cable n (''Fiber Length: '' @ len)"
    and "parse_cable (cable_placemark n len) n (''Fiber Length: '' @ len) = Some c"
  shows "parse_placemark self (cable_placemark n len) =
     self\<lparr>self_cables := self_cables self @ [c],
          self_raw_placemarks := self_raw_placemarks self @ [raw_cable n len]\<rparr>"
proof -
  have "name_elem (cable_placemark n len) = Some (Some n)"
    "description_elem (cable_placemark n len) = Some (Some (''Fiber Length: '' @ len))"
    by (simp_all add: cable_placemark_def)
  with assms show ?thesis
    by (simp add: parse_placemark_def determine_type_def raw_cable_def)
qed

lemma kinds_a:
  "\<not> is_pole ''Cable-A'' (''Fiber Length: '' @ ''1000m'')"
  "\<not> is_odp ''Cable-A'' (''Fiber Length: '' @ ''1000m'')"
  "is_cable ''Cable-A'' (''Fiber Length: '' @ ''1000m'')"
  by code_simp+

lemma fields_a:
  "extract_field (''Fiber Length: '' @ ''1000m'') ''Fiber Length'' = Some ''1000m''"
  "extract_field (''Fiber Length: '' @ ''1000m'') ''Number of Core'' = None"
  "extract_field (''Fiber Length: '' @ ''1000m'') ''Specification'' = None"
  "extract_field (''Fiber Length: '' @ ''1000m'') ''Construction Status'' = None"
  by code_simp+

lemma kinds_b:
  "\<not> is_pole ''Cable-B'' (''Fiber Length: '' @ ''2000m'')"
  "\<not> is_odp ''Cable-B'' (''Fiber Length: '' @ ''2000m'')"
  "is_cable ''Cable-B'' (''Fiber Length: '' @ ''2000m'')"
  by code_simp+

lemma fields_b:
  "extract_field (''Fiber Length: '' @ ''2000m'') ''Fiber Length'' = Some ''2000m''"
  "extract_field (''Fiber Length: '' @ ''2000m'') ''Number of Core'' = None"
  "extract_field (''Fiber Length: '' @ ''2000m'') ''Specification'' = None"
  "extract_field (''Fiber Length: '' @ ''2000m'') ''Construction Status'' = None"
  by code_simp+

lemma fields_c:
  "extract_field (''Fiber Length: '' @ ''1.5km'') ''Fiber Length'' = Some ''1.5km''"
  "extract_field (''Fiber Length: '' @ ''1.5km'') ''Number of Core'' = None"
  "extract_field (''Fiber Length: '' @ ''1.5km'') ''Specification'' = None"
  "extract_field (''Fiber Length: '' @ ''1.5km'') ''Construction Status'' = None"
  by code_simp+

lemma parse_cable_a:
  "parse_cable (cable_placemark ''Cable-A'' ''1000m'') ''Cable-A'' (''Fiber Length: '' @ ''1000m'')
   = Some (parsed_cable ''Cable-A'' 1000)"
  using parse_cable_placemark [OF fields_a(1) _ fields_a(2,3,4), of "''Cable-A''"]
  by (simp only: parse_length_examples) simp

lemma parse_cable_b:
  "parse_cable (cable_placemark ''Cable-B'' ''2000m'') ''Cable-B'' (''Fiber Length: '' @ ''2000m'')
   = Some (parsed_cable ''Cable-B'' 2000)"
  using parse_cable_placemark [OF fields_b(1) _ fields_b(2,3,4), of "''Cable-B''"]
  by (simp only: parse_length_examples) simp

lemma parse_placemark_a:
  "parse_placemark self (cable_placemark ''Cable-A'' ''1000m'') =
     self\<lparr>self_cables := self_cables self @ [parsed_cable ''Cable-A'' 1000],
          self_raw_placemarks := self_raw_placemarks self @ [raw_cable ''Cable-A'' ''1000m'']\<rparr>"
  by (rule parse_placemark_cable [OF kinds_a parse_cable_a])

lemma parse_placemark_b:
  "parse_placemark self (cable_placemark ''Cable-B'' ''2000m'') =
     self\<lparr>self_cables := self_cables self @ [parsed_cable ''Cable-B'' 2000],
          self_raw_placemarks := self_raw_placemarks self @ [raw_cable ''Cable-B'' ''2000m'']\<rparr>"
  by (rule parse_placemark_cable [OF kinds_b parse_cable_b])

lemma parse_doc_a_fresh:
  "parse_file KMLParser_init doc_a =
     (Inr \<lparr>poles = [], odps = [], cables = [parsed_cable ''Cable-A'' 1000],
           raw_placemarks = [raw_cable ''Cable-A'' ''1000m'']\<rparr>,
      \<lparr>self_poles = [], self_odps = [], self_cables = [parsed_cable ''Cable-A'' 1000],
       self_raw_placemarks = [raw_cable ''Cable-A'' ''1000m'']\<rparr>)"
  by (simp add: parse_file_def doc_a_def parse_placemark_a KMLParser_init_def)

lemma parse_doc_b_on:
  "parse_file \<lparr>self_poles = [], self_odps = [], self_cables = cs, self_raw_placemarks = rs\<rparr>
     doc_b =
     (Inr \<lparr>poles = [], odps = [], cables = cs @ [parsed_cable ''Cable-B'' 2000],
           raw_placemarks = rs @ [raw_cable ''Cable-B'' ''2000m'']\<rparr>,
      \<lparr>self_poles = [], self_odps = [], self_cables = cs @ [parsed_cable ''Cable-B'' 2000],
       self_raw_placemarks = rs @ [raw_cable ''Cable-B'' ''2000m'']\<rparr>)"
  by (simp add: parse_file_def doc_b_def parse_placemark_b)

lemma parse_doc_b_fresh:
  "fst (parse_file KMLParser_init doc_b) =
     Inr \<lparr>poles = [], odps = [], cables = [parsed_cable ''Cable-B'' 2000],
          raw_placemarks = [raw_cable ''Cable-B'' ''2000m'']\<rparr>"
  unfolding KMLParser_init_def parse_doc_b_on by simp

lemma parse_doc_b_reused:
  "fst (parse_file (snd (parse_file KMLParser_init doc_a)) doc_b) =
     Inr \<lparr>poles = [], odps = [],
          cables = [parsed_cable ''Cable-A'' 1000, parsed_cable ''Cable-B'' 2000],
          raw_placemarks = [raw_cable ''Cable-A'' ''1000m'', raw_cable ''Cable-B'' ''2000m'']\<rparr>"
  unfolding parse_doc_a_fresh snd_conv parse_doc_b_on by simp

lemma endpoint_dicts:
  "cable_dicts \<lparr>poles = [], odps = [], cables = [parsed_cable ''Cable-A'' 1000],
           raw_placemarks = rs\<rparr> =
     \<lparr>nd_cables = Some [\<lparr>cd_name = Some ''Cable-A'', cd_fiber_length_km = Some 1,
         cd_construction_status = Some ''Unknown'', cd_specification = Some ''Unknown''\<rparr>]\<rparr>"
  "cable_dicts \<lparr>poles = [], odps = [],
           cables = [parsed_cable ''Cable-A'' 1000, parsed_cable ''Cable-B'' 2000],
           raw_placemarks = rs\<rparr> =
     \<lparr>nd_cables = Some [\<lparr>cd_name = Some ''Cable-A'', cd_fiber_length_km = Some 1,
         cd_construction_status = Some ''Unknown'', cd_specification = Some ''Unknown''\<rparr>,
       \<lparr>cd_name = Some ''Cable-B'', cd_fiber_length_km = Some 2,
         cd_construction_status = Some ''Unknown'', cd_specification = Some ''Unknown''\<rparr>]\<rparr>"
  by (simp_all add: cable_dicts_def parsed_cable_def)

text \<open>
  C1 fails on the code. \<open>parse_file\<close> appends to the lists of the parser and never
  empties them: a parser that has parsed \<open>doc_a\<close> returns for \<open>doc_b\<close> a snapshot that
  holds the cable of \<open>doc_a\<close> as well, where a fresh parser returns the cable of \<open>doc_b\<close>
  alone. The comparison endpoint parses the planned and the built document with one
  parser, so the planned cable \<open>Cable-A\<close>, which the built document does not have, is
  compared with itself and reported Compliant.
\<close>

theorem parser_reuse_carries_over_entities:
  "fst (parse_file KMLParser_init doc_b) =
     Inr \<lparr>poles = [], odps = [], cables = [parsed_cable ''Cable-B'' 2000],
          raw_placemarks = [raw_cable ''Cable-B'' ''2000m'']\<rparr>
   \<and> fst (parse_file (snd (parse_file KMLParser_init doc_a)) doc_b) =
     Inr \<lparr>poles = [], odps = [],
          cables = [parsed_cable ''Cable-A'' 1000, parsed_cable ''Cable-B'' 2000],
          raw_placemarks = [raw_cable ''Cable-A'' ''1000m'', raw_cable ''Cable-B'' ''2000m'']\<rparr>
   \<and> fst (parse_file (snd (parse_file KMLParser_init doc_a)) doc_b)
       \<noteq> fst (parse_file KMLParser_init doc_b)
   \<and> (\<exists>r. compare_planned_vs_built doc_a doc_b [] = Inr r
          \<and> map (\<lambda>c. (cable_id c, built_status c, compliance_status c)) (cable_comparisons r)
              = [(''Cable-A'', ''Unknown'', ''Compliant''),
                 (''Cable-B'', ''Unknown'', ''Major Deviation'')])"
proof -
  have "\<exists>r. compare_planned_vs_built doc_a doc_b [] = Inr r
          \<and> map (\<lambda>c. (cable_id c, built_status c, compliance_status c)) (cable_comparisons r)
              = [(''Cable-A'', ''Unknown'', ''Compliant''),
                 (''Cable-B'', ''Unknown'', ''Major Deviation'')]"
    unfolding compare_planned_vs_built_def Let_def parse_doc_a_fresh prod.case sum.case
      parse_doc_b_on append_Nil append_Cons endpoint_dicts
    by (simp add: compare_networks_def opm_lookup_def compare_cable_def
        create_unplanned_cable_result_def LENGTH_TOLERANCE_PCT_def Let_def lower_def)
  then show ?thesis
    by (simp add: parse_doc_b_fresh parse_doc_b_reused)
qed

text \<open>
  C3 fails on the code. \<open>_parse_length\<close> removes every \<open>m\<close> before it looks for \<open>km\<close>, so
  \<open>'1.5km'\<close> becomes \<open>'1.5k'\<close>, \<open>float\<close> raises and the result is 0, not 1500; a cable
  whose description has the field \<open>Fiber Length: 1.5km\<close> gets \<open>fiber_length = 0\<close>. A
  trailing \<open>m\<close> is handled: \<open>'123m'\<close> gives 123.
\<close>

theorem parse_length_km_suffix_lost:
  "parse_length ''1.5km'' = 0
   \<and> parse_length ''123m'' = 123
   \<and> parse_cable (cable_placemark ''Cable-C'' ''1.5km'') ''Cable-C'' (''Fiber Length: '' @ ''1.5km'')
       = Some (parsed_cable ''Cable-C'' 0)"
  using parse_cable_placemark [OF fields_c(1) _ fields_c(2,3,4), of "''Cable-C''"]
  by (simp only: parse_length_examples) simp

end
